theory Spec2Isabelle
  imports Complex_Main
begin

section \<open>The animation wrapper \<open>plot_anim\<close> of \<open>src/animation.py\<close>\<close>

text \<open>
  The repository is one function, \<open>plot_anim\<close>, glue between a caller-supplied frame
  generator and three libraries: numpy (\<open>linspace\<close>), matplotlib (pyplot, axes, lines,
  \<open>FuncAnimation\<close>) and IPython (\<open>HTML\<close>). The function itself is translated line by
  line. The library calls it makes are modelled by the definitions of the next
  subsections, each with the library behaviour it stands for, that of the current
  releases of numpy and matplotlib.

  Numbers are floating-point values of a type \<open>'f\<close> that is left open, and the
  arithmetic on them is a parameter: nothing is assumed about rounding, overflow or
  special values. The encoders of the machine are part of the world.

  Exceptions are values: a call returns \<open>Inl e\<close> when it raises \<open>e\<close> and
  \<open>Inr (result, world)\<close> when it returns. The state of the world after an exception is
  not tracked.
\<close>

subsection \<open>Exceptions\<close>

datatype error =
    ValueError string
  | RuntimeError string
  | ZeroDivisionError string
  | AttributeError string
  | IndexError string
  | Raised string  \<comment> \<open>any other exception, of the frame generator or of an encoder\<close>

text \<open>Decimal numbers in messages.\<close>

function show_nat :: "nat \<Rightarrow> string" where
  "show_nat n = (if n < 10 then [''0123456789'' ! n]
                 else show_nat (n div 10) @ [''0123456789'' ! (n mod 10)])"
  by pat_completeness auto
termination
  by (relation "measure id") auto

definition show_int :: "int \<Rightarrow> string" where
  "show_int i = (if i < 0 then ''-'' @ show_nat (nat (- i)) else show_nat (nat i))"

subsection \<open>Floating-point arithmetic\<close>

text \<open>
  The operations numpy applies to the numbers of \<open>linspace\<close>: the conversion of an
  integer, the four operations (each with its own rounding), and the test \<open>v == 0\<close>.
\<close>

record 'f arith =
  f_of_int :: "int \<Rightarrow> 'f"
  f_add :: "'f \<Rightarrow> 'f \<Rightarrow> 'f"
  f_sub :: "'f \<Rightarrow> 'f \<Rightarrow> 'f"
  f_mul :: "'f \<Rightarrow> 'f \<Rightarrow> 'f"
  f_div :: "'f \<Rightarrow> 'f \<Rightarrow> 'f"
  f_is_zero :: "'f \<Rightarrow> bool"

text \<open>Arithmetic without rounding, on the reals.\<close>

definition exact :: "real arith" where
  "exact = \<lparr>f_of_int = real_of_int, f_add = (+), f_sub = (-), f_mul = (*), f_div = (/),
            f_is_zero = (\<lambda>v. v = 0)\<rparr>"

subsection \<open>numpy: \<open>linspace\<close>\<close>

text \<open>
  \<open>numpy.linspace(start, stop, num)\<close> with the default \<open>endpoint=True\<close>, as numpy computes
  it: a negative \<open>num\<close> raises \<open>ValueError\<close>; otherwise \<open>div = num - 1\<close>,
  \<open>delta = stop - start\<close>, \<open>y = arange(0, num)\<close>; when \<open>div > 0\<close>, \<open>step = delta / div\<close> and
  \<open>y\<close> is multiplied by \<open>step\<close>, or divided by \<open>div\<close> and multiplied by \<open>delta\<close> when
  \<open>step == 0\<close>; when \<open>div \<le> 0\<close>, \<open>y\<close> is multiplied by \<open>delta\<close>; then \<open>start\<close> is added, and
  the last entry is overwritten with \<open>stop\<close> when \<open>num > 1\<close>.
\<close>

definition linspace :: "'f arith \<Rightarrow> 'f \<Rightarrow> 'f \<Rightarrow> int \<Rightarrow> error + 'f list" where
  "linspace ar start stop num =
     (if num < 0
      then Inl (ValueError (''Number of samples, '' @ show_int num @ '', must be non-negative.''))
      else
        let dv = num - 1;
            delta = f_sub ar stop start;
            y = map (\<lambda>i. f_of_int ar (int i)) [0 ..< nat num];
            y1 = (if dv > 0
                  then let step = f_div ar delta (f_of_int ar dv)
                       in if f_is_zero ar step
                          then map (\<lambda>v. f_mul ar (f_div ar v (f_of_int ar dv)) delta) y
                          else map (\<lambda>v. f_mul ar v step) y
                  else map (\<lambda>v. f_mul ar v delta) y);
            y2 = map (\<lambda>v. f_add ar v start) y1
        in Inr (if num > 1 then y2[nat num - 1 := stop] else y2))"

subsection \<open>The frame generator\<close>

text \<open>
  A frame is one array of range values. A Python generator is consumed by \<open>next\<close>: it
  yields a frame, is exhausted, or raises. It is modelled by what it answers to its
  \<open>k\<close>-th resumption (counted from 0); an answer is only ever looked at when the
  generator is resumed that far, so the sequence may be unbounded.

  \<open>frame_gen\<close> is any callable: calling it may raise, and it may lack \<open>__name__\<close>.
\<close>

type_synonym 'f frame = "'f list"

datatype 'f step = Yield "'f frame" | Stop | Raise error

type_synonym 'f generator = "nat \<Rightarrow> 'f step"

record 'f producer =
  fn_name :: "string option"                            \<comment> \<open>\<open>frame_gen.__name__\<close>, when it has one\<close>
  fn_call :: "'f list \<Rightarrow> error + 'f generator"   \<comment> \<open>\<open>frame_gen(x)\<close>\<close>

subsection \<open>matplotlib: figures, pyplot and its global state\<close>

record 'f line2d =
  xdata :: "'f list"
  ydata :: "'f list"
  linewidth :: nat

text \<open>The limits of a figure are \<open>None\<close> as long as the defaults apply.\<close>

record 'f figure =
  fig_xlim :: "('f \<times> 'f) option"
  fig_ylim :: "('f \<times> 'f) option"
  fig_title :: "string option"
  fig_xlabel :: "string option"
  fig_ylabel :: "string option"
  fig_lines :: "'f line2d list"

text \<open>A rendered frame: the decorations and, for every line, the points drawn.\<close>

record 'f picture =
  pic_xlim :: "('f \<times> 'f) option"
  pic_ylim :: "('f \<times> 'f) option"
  pic_title :: "string option"
  pic_xlabel :: "string option"
  pic_ylabel :: "string option"
  pic_curves :: "('f \<times> 'f) list list"

text \<open>A movie: the name of the writer that encoded it, the interval between frames in
  milliseconds (the frame rate is 1000 over it) and the frames.\<close>

record 'f movie =
  mv_writer :: string
  mv_interval :: nat
  mv_frames :: "'f picture list"

text \<open>
  A movie writer of the machine, by what can go wrong with it: starting it
  (\<open>setup\<close>), handing it the frame number \<open>k\<close> (\<open>grab_frame\<close>, after the figure was drawn),
  and finishing after \<open>k\<close> frames (\<open>finish\<close>). \<open>Some e\<close>: that step raises \<open>e\<close>.
\<close>

record writer =
  wr_setup :: "error option"
  wr_grab :: "nat \<Rightarrow> error option"
  wr_finish :: "nat \<Rightarrow> error option"

text \<open>
  The world outside the call: the figure objects (by figure number; a closed figure
  stays an object as long as something refers to it), pyplot's registry of open
  figures with the current figure first, the two \<open>rcParams\<close> entries the code touches
  or depends on, the movie writers that are available on the machine by name, the
  Pillow writer (always available), and the files on disk.
\<close>

record 'f world =
  figures :: "nat \<rightharpoonup> 'f figure"
  fignums :: "nat list"
  rc_animation_html :: string
  rc_animation_writer :: string
  writers :: "string \<rightharpoonup> writer"
  pillow :: writer
  files :: "string \<rightharpoonup> 'f movie"

type_synonym fig_handle = nat
type_synonym ax_handle = nat          \<comment> \<open>the single axes of the figure with that number\<close>
type_synonym line_handle = "nat \<times> nat"  \<comment> \<open>figure number and position among its lines\<close>

definition new_figure :: "'f figure" where
  "new_figure = \<lparr>fig_xlim = None, fig_ylim = None, fig_title = None,
                 fig_xlabel = None, fig_ylabel = None, fig_lines = []\<rparr>"

definition upd_fig :: "nat \<Rightarrow> ('f figure \<Rightarrow> 'f figure) \<Rightarrow> 'f world \<Rightarrow> 'f world" where
  "upd_fig i f w = w\<lparr>figures := (figures w)(i := map_option f (figures w i))\<rparr>"

text \<open>\<open>plt.subplots()\<close>: a new figure, numbered one above the largest open number (1 when
  none is open), becomes the current figure; the figure and its axes are returned.\<close>

definition subplots :: "'f world \<Rightarrow> (fig_handle \<times> ax_handle) \<times> 'f world" where
  "subplots w =
     (let num = Suc (fold max (fignums w) 0)
      in ((num, num), w\<lparr>figures := (figures w)(num \<mapsto> new_figure),
                         fignums := num # fignums w\<rparr>))"

text \<open>\<open>plt.gcf()\<close>: the current figure, created when no figure is open.\<close>

definition gcf :: "'f world \<Rightarrow> fig_handle \<times> 'f world" where
  "gcf w = (case fignums w of [] \<Rightarrow> (let ((fig, ax), w1) = subplots w in (fig, w1))
            | num # _ \<Rightarrow> (num, w))"

text \<open>\<open>ax.set_xlim(lims)\<close>, \<open>ax.set_ylim(lims)\<close>: the requested pair is recorded. (matplotlib
  widens a pair of identical limits and warns; it does not raise.)\<close>

definition set_xlim :: "ax_handle \<Rightarrow> 'f \<times> 'f \<Rightarrow> 'f world \<Rightarrow> 'f world" where
  "set_xlim ax lims w = upd_fig ax (\<lambda>f. f\<lparr>fig_xlim := Some lims\<rparr>) w"

definition set_ylim :: "ax_handle \<Rightarrow> 'f \<times> 'f \<Rightarrow> 'f world \<Rightarrow> 'f world" where
  "set_ylim ax lims w = upd_fig ax (\<lambda>f. f\<lparr>fig_ylim := Some lims\<rparr>) w"

text \<open>\<open>plt.title(s)\<close>, \<open>plt.xlabel(s)\<close>, \<open>plt.ylabel(s)\<close> act on the current figure.\<close>

definition plt_title :: "string \<Rightarrow> 'f world \<Rightarrow> 'f world" where
  "plt_title s w = (let (fig, w1) = gcf w in upd_fig fig (\<lambda>f. f\<lparr>fig_title := Some s\<rparr>) w1)"

definition plt_xlabel :: "string \<Rightarrow> 'f world \<Rightarrow> 'f world" where
  "plt_xlabel s w = (let (fig, w1) = gcf w in upd_fig fig (\<lambda>f. f\<lparr>fig_xlabel := Some s\<rparr>) w1)"

definition plt_ylabel :: "string \<Rightarrow> 'f world \<Rightarrow> 'f world" where
  "plt_ylabel s w = (let (fig, w1) = gcf w in upd_fig fig (\<lambda>f. f\<lparr>fig_ylabel := Some s\<rparr>) w1)"

text \<open>\<open>ax.plot(xs, ys, lw=lw)\<close>: one more line on the axes; the list of the lines added is
  returned. Arrays of different lengths are rejected.\<close>

definition ax_plot ::
  "ax_handle \<Rightarrow> 'f list \<Rightarrow> 'f list \<Rightarrow> nat \<Rightarrow> 'f world \<Rightarrow> error + (line_handle list \<times> 'f world)" where
  "ax_plot ax xs ys lw w =
     (if length xs \<noteq> length ys
      then Inl (ValueError ''x and y must have same first dimension'')
      else
        let k = (case figures w ax of None \<Rightarrow> 0 | Some f \<Rightarrow> length (fig_lines f))
        in Inr ([(ax, k)],
                upd_fig ax (\<lambda>f. f\<lparr>fig_lines := fig_lines f @
                                   [\<lparr>xdata = xs, ydata = ys, linewidth = lw\<rparr>]\<rparr>) w))"

text \<open>\<open>line.set_data(x, y)\<close> stores the two arrays; nothing is checked until the line is
  drawn. (A handle always refers to a line of its figure; for a position beyond the
  lines the list update changes nothing.)\<close>

definition set_data :: "line_handle \<Rightarrow> 'f list \<Rightarrow> 'f list \<Rightarrow> 'f world \<Rightarrow> 'f world" where
  "set_data lh x y w =
     upd_fig (fst lh)
       (\<lambda>f. f\<lparr>fig_lines := (fig_lines f)[snd lh := ((fig_lines f) ! snd lh)\<lparr>xdata := x, ydata := y\<rparr>]\<rparr>) w"

definition get_data :: "line_handle \<Rightarrow> 'f world \<Rightarrow> ('f list \<times> 'f list) option" where
  "get_data lh w =
     (case figures w (fst lh) of None \<Rightarrow> None
      | Some f \<Rightarrow> if snd lh < length (fig_lines f)
                  then Some (xdata (fig_lines f ! snd lh), ydata (fig_lines f ! snd lh))
                  else None)"

text \<open>\<open>plt.close()\<close> removes the current figure from the registry of open figures.\<close>

definition plt_close :: "'f world \<Rightarrow> 'f world" where
  "plt_close w = w\<lparr>fignums := tl (fignums w)\<rparr>"

text \<open>\<open>rc('animation', html=v)\<close> sets the global \<open>rcParams['animation.html']\<close>.\<close>

definition rc_animation :: "string \<Rightarrow> 'f world \<Rightarrow> 'f world" where
  "rc_animation v w = w\<lparr>rc_animation_html := v\<rparr>"

subsection \<open>matplotlib: drawing a figure\<close>

text \<open>
  Drawing a line (\<open>Line2D.recache\<close>) broadcasts the two arrays against each other
  (\<open>numpy.broadcast_arrays\<close>): arrays of equal length are paired; an array of length 1 is
  repeated to the length of the other one, whatever that length is; any other pair of
  lengths raises \<open>ValueError\<close>.
\<close>

definition broadcast :: "'f list \<Rightarrow> 'f list \<Rightarrow> ('f \<times> 'f) list" where
  "broadcast x y =
     (if length x = length y then zip x y
      else if length x = 1 then zip (replicate (length y) (hd x)) y
      else zip x (replicate (length x) (hd y)))"

definition shape_mismatch :: "nat \<Rightarrow> nat \<Rightarrow> string" where
  "shape_mismatch m k =
     ''shape mismatch: objects cannot be broadcast to a single shape.  '' @
     ''Mismatch is between arg 0 with shape ('' @ show_nat m @
     '',) and arg 1 with shape ('' @ show_nat k @ '',).''"

definition recache :: "'f line2d \<Rightarrow> error + ('f \<times> 'f) list" where
  "recache l =
     (let x = xdata l; y = ydata l
      in if length x = length y \<or> length x = 1 \<or> length y = 1
         then Inr (broadcast x y)
         else Inl (ValueError (shape_mismatch (length x) (length y))))"

fun recache_all :: "'f line2d list \<Rightarrow> error + ('f \<times> 'f) list list" where
  "recache_all [] = Inr []"
| "recache_all (l # ls) =
     (case recache l of Inl e \<Rightarrow> Inl e
      | Inr c \<Rightarrow> (case recache_all ls of Inl e \<Rightarrow> Inl e | Inr cs \<Rightarrow> Inr (c # cs)))"

definition draw :: "'f figure \<Rightarrow> error + 'f picture" where
  "draw f =
     (case recache_all (fig_lines f) of Inl e \<Rightarrow> Inl e
      | Inr cs \<Rightarrow> Inr \<lparr>pic_xlim = fig_xlim f, pic_ylim = fig_ylim f, pic_title = fig_title f,
                       pic_xlabel = fig_xlabel f, pic_ylabel = fig_ylabel f, pic_curves = cs\<rparr>)"

text \<open>A frame is taken by drawing the figure of the animation.\<close>

definition grab_frame :: "fig_handle \<Rightarrow> 'f world \<Rightarrow> error + 'f picture" where
  "grab_frame fig w =
     (case figures w fig of None \<Rightarrow> Inl (RuntimeError ''no such figure'')
      | Some f \<Rightarrow> draw f)"

subsection \<open>matplotlib: \<open>FuncAnimation\<close>\<close>

record 'f anim =
  an_fig :: fig_handle
  an_func :: "'f frame \<Rightarrow> 'f world \<Rightarrow> line_handle list \<times> 'f world"
  an_init_func :: "'f world \<Rightarrow> line_handle list \<times> 'f world"
  an_save_count :: nat
  an_frames :: "'f generator"
  an_interval :: nat
  an_blit :: bool

text \<open>\<open>FuncAnimation(fig, func, init_func=..., save_count=..., frames=..., interval=...,
  blit=...)\<close> only builds the object: no frame is pulled before the animation is
  encoded.\<close>

definition FuncAnimation ::
  "fig_handle \<Rightarrow> ('f frame \<Rightarrow> 'f world \<Rightarrow> line_handle list \<times> 'f world) \<Rightarrow>
   ('f world \<Rightarrow> line_handle list \<times> 'f world) \<Rightarrow> nat \<Rightarrow> 'f generator \<Rightarrow> nat \<Rightarrow> bool \<Rightarrow> 'f anim" where
  "FuncAnimation fig func init_func save_count frames interval blit =
     \<lparr>an_fig = fig, an_func = func, an_init_func = init_func, an_save_count = save_count,
      an_frames = frames, an_interval = interval, an_blit = blit\<rparr>"

text \<open>
  The run loop of the engine while encoding with the writer \<open>W\<close>: at most \<open>save_count\<close>
  frames are pulled from the generator, in order; for each one the update function is
  called, the figure is drawn and the frame is handed to the writer. \<open>m\<close> is the number
  of frames still allowed, \<open>k\<close> the position in the generator. The result is the frames
  the writer has got, and how the loop ended.
\<close>

fun grab_frames ::
  "'f anim \<Rightarrow> writer \<Rightarrow> nat \<Rightarrow> nat \<Rightarrow> 'f world \<Rightarrow> 'f picture list \<times> (error + 'f world)" where
  "grab_frames A W 0 k w = ([], Inr w)"
| "grab_frames A W (Suc m) k w =
     (case an_frames A k of
        Stop \<Rightarrow> ([], Inr w)
      | Raise e \<Rightarrow> ([], Inl e)
      | Yield y \<Rightarrow>
          (let (arts, w1) = an_func A y w
           in case grab_frame (an_fig A) w1 of Inl e \<Rightarrow> ([], Inl e)
              | Inr p \<Rightarrow>
                  (case wr_grab W k of Some e \<Rightarrow> ([], Inl e)
                   | None \<Rightarrow>
                       (let (ps, r) = grab_frames A W m (Suc k) w1 in (p # ps, r)))))"

text \<open>
  \<open>with writer.saving(...)\<close>: the writer is set up; then, whatever happens while the
  initialization function and the run loop are executed, the writer is finished. An
  error of \<open>finish\<close> takes the place of an error of the loop.
\<close>

definition saving :: "'f anim \<Rightarrow> writer \<Rightarrow> 'f world \<Rightarrow> error + ('f picture list \<times> 'f world)" where
  "saving A W w =
     (case wr_setup W of Some e \<Rightarrow> Inl e
      | None \<Rightarrow>
          (let (arts, w1) = an_init_func A w;
               (ps, r) = grab_frames A W (an_save_count A) 0 w1
           in case wr_finish W (length ps) of Some e \<Rightarrow> Inl e
              | None \<Rightarrow> (case r of Inl e \<Rightarrow> Inl e | Inr w2 \<Rightarrow> Inr (ps, w2))))"

text \<open>The writer registered under a name, if it is available.\<close>

definition lookup_writer :: "'f world \<Rightarrow> string \<Rightarrow> writer option" where
  "lookup_writer w name = (if name = ''pillow'' then Some (pillow w) else writers w name)"

text \<open>
  \<open>anim.save(filename, writer=name)\<close>: the frame rate is \<open>1000 / interval\<close>; the writer of
  that name is used, and the Pillow writer when it is not available; the movie is
  written to the named file.
\<close>

definition save :: "'f anim \<Rightarrow> string \<Rightarrow> string \<Rightarrow> 'f world \<Rightarrow> error + 'f world" where
  "save A filename name w =
     (if an_interval A = 0 then Inl (ZeroDivisionError ''float division by zero'')
      else
        let (used, W) = (case lookup_writer w name of Some W \<Rightarrow> (name, W)
                         | None \<Rightarrow> (''pillow'', pillow w))
        in case saving A W w of Inl e \<Rightarrow> Inl e
           | Inr (ps, w1) \<Rightarrow>
               Inr (w1\<lparr>files := (files w1)(filename \<mapsto>
                      \<lparr>mv_writer = used, mv_interval = an_interval A, mv_frames = ps\<rparr>)\<rparr>))"

text \<open>
  \<open>anim.to_html5_video()\<close>: the writer of \<open>rcParams['animation.writer']\<close> is looked up, and
  must be available; the frame rate is \<open>1000 / interval\<close>; the movie is encoded and
  returned embedded in a video tag. (matplotlib goes through a temporary file that it
  removes before returning; the files of the world are the ones that remain. Sizes
  are not modelled: a movie above \<open>rcParams['animation.embed_limit']\<close> is replaced by
  a message.)
\<close>

definition to_html5_video :: "'f anim \<Rightarrow> 'f world \<Rightarrow> error + ('f movie \<times> 'f world)" where
  "to_html5_video A w =
     (case lookup_writer w (rc_animation_writer w) of
        None \<Rightarrow> Inl (RuntimeError (''Requested MovieWriter ('' @ rc_animation_writer w @
                                    '') not available''))
      | Some W \<Rightarrow>
          if an_interval A = 0 then Inl (ZeroDivisionError ''float division by zero'')
          else case saving A W w of Inl e \<Rightarrow> Inl e
               | Inr (ps, w1) \<Rightarrow>
                   Inr (\<lparr>mv_writer = rc_animation_writer w, mv_interval = an_interval A,
                         mv_frames = ps\<rparr>, w1))"

subsection \<open>IPython: \<open>HTML\<close>\<close>

datatype 'f html = HTML "'f movie"

subsection \<open>\<open>plot_anim\<close>\<close>

text \<open>Python's truth value of an optional string argument: \<open>None\<close> and \<open>""\<close> are false.\<close>

fun truthy :: "string option \<Rightarrow> bool" where
  "truthy None = False"
| "truthy (Some s) = (s \<noteq> [])"

text \<open>\<open>if v: f(v)\<close>\<close>

definition if_truthy :: "string option \<Rightarrow> (string \<Rightarrow> 'f world \<Rightarrow> 'f world) \<Rightarrow> 'f world \<Rightarrow> 'f world" where
  "if_truthy v f w = (case v of None \<Rightarrow> w | Some s \<Rightarrow> if truthy v then f s w else w)"

text \<open>The two closures of \<open>plot_anim\<close>, over its variables \<open>line\<close> and \<open>x\<close>.\<close>

definition init_frame :: "line_handle \<Rightarrow> 'f world \<Rightarrow> line_handle list \<times> 'f world" where
  "init_frame line w = (let w1 = set_data line [] [] w in ([line], w1))"

definition animate :: "'f list \<Rightarrow> line_handle \<Rightarrow> 'f frame \<Rightarrow> 'f world \<Rightarrow> line_handle list \<times> 'f world" where
  "animate x line y w = (let w1 = set_data line x y w in ([line], w1))"

text \<open>Lines 76 to 83: the two output paths. The file path returns \<open>None\<close>.\<close>

definition emit :: "'f producer \<Rightarrow> 'f anim \<Rightarrow> bool \<Rightarrow> 'f world \<Rightarrow> error + ('f html option \<times> 'f world)" where
  "emit frame_gen an gif w =
     (if gif then
        (case fn_name frame_gen of
           None \<Rightarrow> Inl (AttributeError ''object has no attribute __name__'')
         | Some nm \<Rightarrow>
             (case save an (nm @ ''.gif'') ''imagemagick'' w of Inl e \<Rightarrow> Inl e
              | Inr w1 \<Rightarrow> Inr (None, w1)))
      else
        (let w1 = rc_animation ''html5'' w
         in case to_html5_video an w1 of Inl e \<Rightarrow> Inl e
            | Inr (mv, w2) \<Rightarrow> Inr (Some (HTML mv), w2)))"

text \<open>Lines 47 to 83, with the domain points \<open>x\<close> and the generator \<open>g\<close> at hand.\<close>

definition plot_frames ::
  "'f producer \<Rightarrow> 'f list \<Rightarrow> 'f generator \<Rightarrow> 'f \<times> 'f \<Rightarrow> 'f \<times> 'f \<Rightarrow> nat \<Rightarrow> nat \<Rightarrow>
   string option \<Rightarrow> string option \<Rightarrow> string option \<Rightarrow> bool \<Rightarrow> 'f world \<Rightarrow>
   error + ('f html option \<times> 'f world)" where
  "plot_frames frame_gen x g xlim ylim delay max_frames title xlabel ylabel gif w =
     (let ((fig, ax), w1) = subplots w;
          w2 = set_xlim ax xlim w1;
          w3 = set_ylim ax ylim w2;
          w4 = if_truthy title plt_title w3;
          w5 = if_truthy xlabel plt_xlabel w4;
          w6 = if_truthy ylabel plt_ylabel w5
      in case ax_plot ax [] [] 2 w6 of Inl e \<Rightarrow> Inl e
         | Inr (lns, w7) \<Rightarrow>
             (case lns of
                [line] \<Rightarrow>
                  (let an = FuncAnimation fig (animate x line) (init_frame line) max_frames
                              g delay True;
                       w8 = plt_close w7
                   in emit frame_gen an gif w8)
              | _ \<Rightarrow> Inl (ValueError ''wrong number of values to unpack'')))"

text \<open>Lines 44 and 45, then the rest. \<open>ar\<close> is the floating-point arithmetic of the
  machine; \<open>n\<close> is any integer; \<open>delay\<close> and \<open>max_frames\<close> are natural numbers, and the
  three decorations are optional strings.\<close>

definition plot_anim ::
  "'f arith \<Rightarrow> 'f producer \<Rightarrow> 'f \<times> 'f \<Rightarrow> 'f \<times> 'f \<Rightarrow> int \<Rightarrow> nat \<Rightarrow> nat \<Rightarrow>
   string option \<Rightarrow> string option \<Rightarrow> string option \<Rightarrow> bool \<Rightarrow> 'f world \<Rightarrow>
   error + ('f html option \<times> 'f world)" where
  "plot_anim ar frame_gen xlim ylim n delay max_frames title xlabel ylabel gif w =
     (case linspace ar (fst xlim) (snd xlim) n of Inl e \<Rightarrow> Inl e
      | Inr x \<Rightarrow>
          (case fn_call frame_gen x of Inl e \<Rightarrow> Inl e
           | Inr g \<Rightarrow>
               plot_frames frame_gen x g xlim ylim delay max_frames title xlabel ylabel gif w))"

subsection \<open>Vocabulary for the statements\<close>

text \<open>Entry \<open>i\<close> of \<open>linspace\<close> before the last one, for \<open>n > 1\<close>, and the single entry for
  \<open>n = 1\<close>, as the arithmetic computes them.\<close>

definition inner_entry :: "'f arith \<Rightarrow> 'f \<Rightarrow> 'f \<Rightarrow> int \<Rightarrow> nat \<Rightarrow> 'f" where
  "inner_entry ar a b n i =
     (let delta = f_sub ar b a;
          step = f_div ar delta (f_of_int ar (n - 1))
      in f_add ar
           (if f_is_zero ar step
            then f_mul ar (f_div ar (f_of_int ar (int i)) (f_of_int ar (n - 1))) delta
            else f_mul ar (f_of_int ar (int i)) step)
           a)"

definition single_entry :: "'f arith \<Rightarrow> 'f \<Rightarrow> 'f \<Rightarrow> 'f" where
  "single_entry ar a b = f_add ar (f_mul ar (f_of_int ar 0) (f_sub ar b a)) a"

text \<open>The number \<open>plt.subplots()\<close> gives to the figure it creates in world \<open>w\<close>.\<close>

definition new_num :: "'f world \<Rightarrow> nat" where
  "new_num w = Suc (fold max (fignums w) 0)"

text \<open>A decoration as it ends up on the figure: the argument when it is truthy, unset
  otherwise.\<close>

definition decorated :: "string option \<Rightarrow> string option" where
  "decorated v = (if truthy v then v else None)"

text \<open>The figure of \<open>plot_anim\<close> when the animation object is built: limits and
  decorations set, one empty line of width 2.\<close>

definition blank_plot ::
  "'f \<times> 'f \<Rightarrow> 'f \<times> 'f \<Rightarrow> string option \<Rightarrow> string option \<Rightarrow> string option \<Rightarrow> 'f figure" where
  "blank_plot xlim ylim title xlabel ylabel =
     \<lparr>fig_xlim = Some xlim, fig_ylim = Some ylim, fig_title = decorated title,
      fig_xlabel = decorated xlabel, fig_ylabel = decorated ylabel,
      fig_lines = [\<lparr>xdata = [], ydata = [], linewidth = 2\<rparr>]\<rparr>"

text \<open>The animation object and the world that \<open>plot_anim\<close> hands to \<open>emit\<close>.\<close>

definition the_anim :: "'f world \<Rightarrow> 'f list \<Rightarrow> 'f generator \<Rightarrow> nat \<Rightarrow> nat \<Rightarrow> 'f anim" where
  "the_anim w x g delay max_frames =
     FuncAnimation (new_num w) (animate x (new_num w, 0)) (init_frame (new_num w, 0))
       max_frames g delay True"

definition closed_plot ::
  "'f world \<Rightarrow> 'f \<times> 'f \<Rightarrow> 'f \<times> 'f \<Rightarrow> string option \<Rightarrow> string option \<Rightarrow> string option \<Rightarrow> 'f world" where
  "closed_plot w xlim ylim title xlabel ylabel =
     w\<lparr>figures := (figures w)(new_num w \<mapsto> blank_plot xlim ylim title xlabel ylabel)\<rparr>"

text \<open>The picture of a figure whose single line draws the points \<open>c\<close>.\<close>

definition rendering :: "'f figure \<Rightarrow> ('f \<times> 'f) list \<Rightarrow> 'f picture" where
  "rendering F c =
     \<lparr>pic_xlim = fig_xlim F, pic_ylim = fig_ylim F, pic_title = fig_title F,
      pic_xlabel = fig_xlabel F, pic_ylabel = fig_ylabel F, pic_curves = [c]\<rparr>"

definition frame_at :: "'f generator \<Rightarrow> nat \<Rightarrow> 'f frame" where
  "frame_at g j = (case g j of Yield y \<Rightarrow> y | _ \<Rightarrow> [])"

text \<open>Figure \<open>num\<close> of the world is \<open>F\<close> up to the data of its lines, and has one line.\<close>

definition one_line :: "'f world \<Rightarrow> nat \<Rightarrow> 'f figure \<Rightarrow> bool" where
  "one_line w num F = (\<exists>F'. figures w num = Some F' \<and> length (fig_lines F') = 1 \<and>
                          F' = F\<lparr>fig_lines := fig_lines F'\<rparr>)"

text \<open>What a returned video shows: the curves of each of its frames. A call that raised,
  or returned no video, shows nothing.\<close>

definition video_curves :: "error + ('f html option \<times> 'f world) \<Rightarrow> ('f \<times> 'f) list list list" where
  "video_curves r =
     (case r of Inr (Some (HTML mv), w) \<Rightarrow> map pic_curves (mv_frames mv) | _ \<Rightarrow> [])"

definition returned :: "error + ('f html option \<times> 'f world) \<Rightarrow> bool" where
  "returned r = (case r of Inl e \<Rightarrow> False | Inr v \<Rightarrow> True)"

definition world_after :: "error + ('f html option \<times> 'f world) \<Rightarrow> 'f world \<Rightarrow> 'f world" where
  "world_after r w = (case r of Inl e \<Rightarrow> w | Inr (v, w') \<Rightarrow> w')"

text \<open>The first \<open>c\<close> answers of the generator are frames of \<open>len\<close> values each; and, more
  generally, frames that can be drawn over \<open>len\<close> domain points.\<close>

definition frames_ok :: "'f generator \<Rightarrow> nat \<Rightarrow> nat \<Rightarrow> bool" where
  "frames_ok g len c = (\<forall>j < c. \<exists>y. g j = Yield y \<and> length y = len)"

definition drawable :: "nat \<Rightarrow> nat \<Rightarrow> bool" where
  "drawable len m = (m = len \<or> m = 1 \<or> len = 1)"

definition frames_drawable :: "'f generator \<Rightarrow> nat \<Rightarrow> nat \<Rightarrow> bool" where
  "frames_drawable g len c = (\<forall>j < c. \<exists>y. g j = Yield y \<and> drawable len (length y))"

text \<open>
  The writer a call uses: in the file path \<open>imagemagick\<close>, or Pillow when that is not
  available; in the video path the writer of \<open>rcParams\<close>, which must be available.
\<close>

definition used_writer :: "bool \<Rightarrow> 'f world \<Rightarrow> writer option" where
  "used_writer gif w =
     (if gif then Some (case lookup_writer w ''imagemagick'' of Some W \<Rightarrow> W | None \<Rightarrow> pillow w)
      else lookup_writer w (rc_animation_writer w))"

text \<open>A writer that raises at no step; and one that is set up and takes \<open>c\<close> frames
  without raising.\<close>

definition works :: "writer \<Rightarrow> bool" where
  "works W = (wr_setup W = None \<and> (\<forall>k. wr_grab W k = None) \<and> (\<forall>k. wr_finish W k = None))"

definition takes :: "writer \<Rightarrow> nat \<Rightarrow> bool" where
  "takes W c = (wr_setup W = None \<and> (\<forall>k < c. wr_grab W k = None))"

text \<open>What encoding needs besides good frames: a frame rate (a non-zero delay), a name
  for the file in the file path, and a writer that works.\<close>

definition can_encode :: "'f producer \<Rightarrow> bool \<Rightarrow> nat \<Rightarrow> 'f world \<Rightarrow> bool" where
  "can_encode frame_gen gif delay w =
     (delay \<noteq> 0 \<and> (gif \<longrightarrow> fn_name frame_gen \<noteq> None) \<and>
      (case used_writer gif w of None \<Rightarrow> False | Some W \<Rightarrow> works W))"

text \<open>The pictures of the first \<open>c\<close> frames of the generator, drawn on figure \<open>F\<close> over the domain
  points \<open>x\<close>.\<close>

definition drawn_frames :: "'f figure \<Rightarrow> 'f list \<Rightarrow> 'f generator \<Rightarrow> nat \<Rightarrow> 'f picture list" where
  "drawn_frames F x g c = map (\<lambda>j. rendering F (broadcast x (frame_at g j))) [0 ..< c]"


text \<open>The name of the writer a call uses, the world in which the movie is made (the
  figure closed and, in the video path, the \<open>html\<close> setting changed), and what a call
  hands back for a movie \<open>mv\<close> made in world \<open>w1\<close>.\<close>

definition used_name :: "bool \<Rightarrow> 'f world \<Rightarrow> string" where
  "used_name gif w =
     (if gif then (if lookup_writer w ''imagemagick'' = None then ''pillow'' else ''imagemagick'')
      else rc_animation_writer w)"

definition start_world ::
  "bool \<Rightarrow> 'f world \<Rightarrow> 'f \<times> 'f \<Rightarrow> 'f \<times> 'f \<Rightarrow> string option \<Rightarrow> string option \<Rightarrow> string option \<Rightarrow> 'f world" where
  "start_world gif w xlim ylim title xlabel ylabel =
     (if gif then closed_plot w xlim ylim title xlabel ylabel
      else (closed_plot w xlim ylim title xlabel ylabel)\<lparr>rc_animation_html := ''html5''\<rparr>)"

definition delivered ::
  "bool \<Rightarrow> string \<Rightarrow> 'f movie \<Rightarrow> 'f world \<Rightarrow> 'f html option \<times> 'f world" where
  "delivered gif nm mv w1 =
     (if gif then (None, w1\<lparr>files := (files w1)(nm @ ''.gif'' \<mapsto> mv)\<rparr>)
      else (Some (HTML mv), w1))"

subsection \<open>Concrete worlds and frame generators\<close>

definition good_writer :: writer where
  "good_writer = \<lparr>wr_setup = None, wr_grab = (\<lambda>_. None), wr_finish = (\<lambda>_. None)\<rparr>"

text \<open>The Pillow writer saves the first frame with the others appended when it is
  finished: without any frame that raises \<open>IndexError\<close>.\<close>

definition pillow_writer :: writer where
  "pillow_writer = \<lparr>wr_setup = None, wr_grab = (\<lambda>_. None),
     wr_finish = (\<lambda>k. if k = 0 then Some (IndexError ''list index out of range'') else None)\<rparr>"

text \<open>A session with no open figure, default \<open>rcParams\<close>, ffmpeg and imagemagick
  installed and working, no files.\<close>

definition fresh_world :: "real world" where
  "fresh_world = \<lparr>figures = Map.empty, fignums = [], rc_animation_html = ''none'',
     rc_animation_writer = ''ffmpeg'',
     writers = [''ffmpeg'' \<mapsto> good_writer, ''imagemagick'' \<mapsto> good_writer],
     pillow = pillow_writer, files = Map.empty\<rparr>"

text \<open>The same on a machine without imagemagick.\<close>

definition no_imagemagick :: "real world" where
  "no_imagemagick = fresh_world\<lparr>writers := [''ffmpeg'' \<mapsto> good_writer]\<rparr>"

text \<open>A constant 0 frame, then a constant 1 frame, then exhausted.\<close>

definition two_frames :: "real producer" where
  "two_frames = \<lparr>fn_name = Some ''two_frames'',
     fn_call = (\<lambda>x. Inr (\<lambda>k. if k = 0 then Yield (map (\<lambda>_. 0) x)
                              else if k = 1 then Yield (map (\<lambda>_. 1) x) else Stop))\<rparr>"

text \<open>The identity: one frame, the domain points themselves.\<close>

definition echo :: "real producer" where
  "echo = \<lparr>fn_name = Some ''echo'',
     fn_call = (\<lambda>x. Inr (\<lambda>k. if k = 0 then Yield x else Stop))\<rparr>"

text \<open>One frame with the single value 7, whatever the domain.\<close>

definition one_value :: "real producer" where
  "one_value = \<lparr>fn_name = Some ''one_value'',
     fn_call = (\<lambda>x. Inr (\<lambda>k. if k = 0 then Yield [7] else Stop))\<rparr>"

text \<open>One frame with the two values 1 and 2, whatever the domain.\<close>

definition short_frame :: "real producer" where
  "short_frame = \<lparr>fn_name = Some ''short_frame'',
     fn_call = (\<lambda>x. Inr (\<lambda>k. if k = 0 then Yield [1, 2] else Stop))\<rparr>"

text \<open>One good frame, then the generator raises.\<close>

definition failing :: "real producer" where
  "failing = \<lparr>fn_name = Some ''failing'',
     fn_call = (\<lambda>x. Inr (\<lambda>k. if k = 0 then Yield (map (\<lambda>_. 0) x)
                              else Raise (Raised ''boom'')))\<rparr>"

text \<open>A callable without \<open>__name__\<close> (a \<open>functools.partial\<close> object, say) that yields
  nothing.\<close>

definition nameless :: "real producer" where
  "nameless = \<lparr>fn_name = None, fn_call = (\<lambda>x. Inr (\<lambda>k. Stop))\<rparr>"

section \<open>Properties\<close>

subsection \<open>\<open>linspace\<close>\<close>

declare show_nat.simps [simp del]


lemma linspace_ok: "0 \<le> n \<Longrightarrow> \<exists>xs. linspace ar a b n = Inr xs \<and> length xs = nat n"
  by (simp add: linspace_def Let_def)

lemma linspace_length: "linspace ar a b n = Inr x \<Longrightarrow> length x = nat n \<and> 0 \<le> n"
  by (auto simp: linspace_def Let_def split: if_splits)


lemma linspace_one: "linspace ar a b 1 = Inr [single_entry ar a b]"
  by (simp add: linspace_def single_entry_def)

lemma linspace_last:
  assumes "1 < n"
  shows "\<exists>xs. linspace ar a b n = Inr xs \<and> xs ! (nat n - 1) = b"
  using assms by (simp add: linspace_def Let_def)

lemma linspace_inner:
  assumes "1 < n" "i < nat n - 1"
  shows "\<exists>xs. linspace ar a b n = Inr xs \<and> xs ! i = inner_entry ar a b n i"
  using assms by (simp add: linspace_def Let_def inner_entry_def)

lemma inner_entry_exact:
  "1 < n \<Longrightarrow> inner_entry exact a b n i = a + real i * (b - a) / real_of_int (n - 1)"
  by (simp add: inner_entry_def exact_def Let_def add.commute)

lemma single_entry_exact: "single_entry exact a b = a"
  by (simp add: single_entry_def exact_def)

lemma linspace_exact_nth:
  assumes "1 < n" "i < nat n"
  shows "\<exists>xs. linspace exact a b n = Inr xs \<and> xs ! i = a + real i * (b - a) / real_of_int (n - 1)"
proof (cases "i = nat n - 1")
  case True
  have "real i = real_of_int (n - 1)" using True assms by simp
  then have "a + real i * (b - a) / real_of_int (n - 1) = b" using assms by simp
  with linspace_last[OF assms(1), of exact a b] True show ?thesis by auto
next
  case False
  with assms have "i < nat n - 1" by simp
  from linspace_inner[OF assms(1) this, of exact a b] inner_entry_exact[OF assms(1)]
  show ?thesis by auto
qed


lemma linspace_0_1_5: "linspace exact 0 1 5 = Inr [0, 1/4, 1/2, 3/4, 1]"
  by (simp add: linspace_def Let_def upt_conv_Cons exact_def)

subsection \<open>Figures and lines\<close>

lemma set_data_fields:
  "fignums (set_data l x y w) = fignums w"
  "files (set_data l x y w) = files w"
  "rc_animation_html (set_data l x y w) = rc_animation_html w"
  "rc_animation_writer (set_data l x y w) = rc_animation_writer w"
  "writers (set_data l x y w) = writers w"
  "pillow (set_data l x y w) = pillow w"
  "lookup_writer (set_data l x y w) = lookup_writer w"
  by (simp_all add: set_data_def upd_fig_def lookup_writer_def fun_eq_iff)

lemma set_data_other: "i \<noteq> fst l \<Longrightarrow> figures (set_data l x y w) i = figures w i"
  by (simp add: set_data_def upd_fig_def)

lemma list_update_rec_twice:
  "ls[k := ((ls[k := (ls ! k)\<lparr>xdata := x, ydata := y\<rparr>]) ! k)\<lparr>xdata := x2, ydata := y2\<rparr>]
     = ls[k := (ls ! k)\<lparr>xdata := x2, ydata := y2\<rparr>]"
  by (cases "k < length ls") (simp_all add: list_update_beyond)

lemma set_data_twice: "set_data l x2 y2 (set_data l x y w) = set_data l x2 y2 w"
  by (cases "figures w (fst l)") (simp_all add: set_data_def upd_fig_def list_update_rec_twice)

lemma fold_max_ge: "fold max xs (a::nat) \<ge> a"
proof (induction xs arbitrary: a)
  case Nil then show ?case by simp
next
  case (Cons x xs)
  have "a \<le> max x a" by simp
  also have "max x a \<le> fold max xs (max x a)" by (rule Cons.IH)
  finally show ?case by simp
qed

lemma fold_max_mem: "i \<in> set xs \<Longrightarrow> i \<le> fold max xs (a::nat)"
proof (induction xs arbitrary: a)
  case Nil then show ?case by simp
next
  case (Cons x xs)
  show ?case
  proof (cases "i = x")
    case True
    have "max x a \<le> fold max xs (max x a)" by (rule fold_max_ge)
    then show ?thesis using True by simp
  next
    case False
    then show ?thesis using Cons by simp
  qed
qed

lemma new_num_fresh: "new_num w \<notin> set (fignums w)"
  using fold_max_mem[of "Suc (fold max (fignums w) 0)" "fignums w" 0] by (auto simp: new_num_def)

lemma plot_frames_setup:
  "plot_frames frame_gen x g xlim ylim delay max_frames title xlabel ylabel gif w =
     emit frame_gen (the_anim w x g delay max_frames) gif
       (closed_plot w xlim ylim title xlabel ylabel)"
  apply (cases title; cases xlabel; cases ylabel)
  apply (simp_all add: plot_frames_def subplots_def Let_def set_xlim_def set_ylim_def
      if_truthy_def plt_title_def plt_xlabel_def plt_ylabel_def gcf_def upd_fig_def ax_plot_def
      new_figure_def plt_close_def blank_plot_def decorated_def new_num_def the_anim_def
      closed_plot_def)
  done

lemma the_anim_fields:
  "an_func (the_anim w x g delay max_frames) = animate x (new_num w, 0)"
  "an_fig (the_anim w x g delay max_frames) = new_num w"
  "an_frames (the_anim w x g delay max_frames) = g"
  "an_init_func (the_anim w x g delay max_frames) = init_frame (new_num w, 0)"
  "an_interval (the_anim w x g delay max_frames) = delay"
  "an_save_count (the_anim w x g delay max_frames) = max_frames"
  by (simp_all add: the_anim_def FuncAnimation_def)

lemma closed_plot_one_line:
  "one_line (closed_plot w xlim ylim title xlabel ylabel) (new_num w)
     (blank_plot xlim ylim title xlabel ylabel)"
  "one_line ((closed_plot w xlim ylim title xlabel ylabel)\<lparr>rc_animation_html := v\<rparr>) (new_num w)
     (blank_plot xlim ylim title xlabel ylabel)"
  by (simp_all add: one_line_def closed_plot_def blank_plot_def)

lemma closed_plot_fields:
  "fignums (closed_plot w xlim ylim title xlabel ylabel) = fignums w"
  "files (closed_plot w xlim ylim title xlabel ylabel) = files w"
  "rc_animation_html (closed_plot w xlim ylim title xlabel ylabel) = rc_animation_html w"
  "rc_animation_writer (closed_plot w xlim ylim title xlabel ylabel) = rc_animation_writer w"
  "writers (closed_plot w xlim ylim title xlabel ylabel) = writers w"
  "pillow (closed_plot w xlim ylim title xlabel ylabel) = pillow w"
  "lookup_writer (closed_plot w xlim ylim title xlabel ylabel) = lookup_writer w"
  "i \<noteq> new_num w \<Longrightarrow> figures (closed_plot w xlim ylim title xlabel ylabel) i = figures w i"
  by (simp_all add: closed_plot_def lookup_writer_def fun_eq_iff)

lemma plot_anim_emit:
  assumes "linspace ar (fst xlim) (snd xlim) n = Inr x" "fn_call frame_gen x = Inr g"
  shows "plot_anim ar frame_gen xlim ylim n delay max_frames title xlabel ylabel gif w =
           emit frame_gen (the_anim w x g delay max_frames) gif
             (closed_plot w xlim ylim title xlabel ylabel)"
  using assms by (simp add: plot_anim_def plot_frames_setup the_anim_def closed_plot_def)

lemma init_frame_animate: "init_frame l w = animate [] l [] w"
  by (simp add: init_frame_def animate_def)

lemma animate_one_line:
  assumes "one_line w num F"
  shows "one_line (snd (animate x (num, 0) y w)) num F"
proof -
  from assms obtain F' where F': "figures w num = Some F'" "length (fig_lines F') = 1"
    "F' = F\<lparr>fig_lines := fig_lines F'\<rparr>" by (auto simp: one_line_def)
  then obtain l0 where l0: "fig_lines F' = [l0]" by (cases "fig_lines F'") auto
  have fig: "figures (snd (animate x (num, 0) y w)) num
               = Some (F'\<lparr>fig_lines := [l0\<lparr>xdata := x, ydata := y\<rparr>]\<rparr>)"
    using F' l0 by (simp add: animate_def set_data_def upd_fig_def)
  have dec: "F'\<lparr>fig_lines := [l0\<lparr>xdata := x, ydata := y\<rparr>]\<rparr>
               = F\<lparr>fig_lines := [l0\<lparr>xdata := x, ydata := y\<rparr>]\<rparr>"
    by (subst F'(3)) simp
  show ?thesis unfolding one_line_def using fig dec by simp
qed

lemma set_data_decor:
  assumes "figures w i = Some F"
  shows "\<exists>F'. figures (set_data l x y w) i = Some F' \<and> fig_title F' = fig_title F \<and>
           fig_xlabel F' = fig_xlabel F \<and> fig_ylabel F' = fig_ylabel F \<and>
           fig_xlim F' = fig_xlim F \<and> fig_ylim F' = fig_ylim F"
  using assms by (auto simp: set_data_def upd_fig_def)

lemma get_set_data:
  "get_data l w \<noteq> None \<Longrightarrow> get_data l (set_data l x y w) = Some (x, y)"
  by (auto simp: get_data_def set_data_def upd_fig_def split: option.splits if_splits)

lemma plot_frames_falsy:
  "plot_frames frame_gen x g xlim ylim delay max_frames (Some []) xlabel ylabel gif w =
     plot_frames frame_gen x g xlim ylim delay max_frames None xlabel ylabel gif w"
  "plot_frames frame_gen x g xlim ylim delay max_frames title (Some []) ylabel gif w =
     plot_frames frame_gen x g xlim ylim delay max_frames title None ylabel gif w"
  "plot_frames frame_gen x g xlim ylim delay max_frames title xlabel (Some []) gif w =
     plot_frames frame_gen x g xlim ylim delay max_frames title xlabel None gif w"
  by (simp_all add: plot_frames_def if_truthy_def)

subsection \<open>The closures and the run loop\<close>

lemma broadcast_same: "length y = length x \<Longrightarrow> broadcast x y = zip x y"
  by (simp add: broadcast_def)

lemma recache_data:
  "recache (l\<lparr>xdata := x, ydata := y\<rparr>) = recache \<lparr>xdata = x, ydata = y, linewidth = 2\<rparr>"
  by (simp add: recache_def)

lemma recache_drawable:
  "drawable (length x) (length y) \<Longrightarrow>
   recache \<lparr>xdata = x, ydata = y, linewidth = lw\<rparr> = Inr (broadcast x y)"
  by (auto simp: recache_def drawable_def)


lemma animate_grab_frame:
  assumes "one_line w num F"
  shows "grab_frame num (snd (animate x (num, 0) y w)) =
           (case recache \<lparr>xdata = x, ydata = y, linewidth = 2\<rparr> of Inl e \<Rightarrow> Inl e
            | Inr c \<Rightarrow> Inr (rendering F c))"
proof -
  from assms obtain F' where F': "figures w num = Some F'" "length (fig_lines F') = 1"
    "F' = F\<lparr>fig_lines := fig_lines F'\<rparr>" by (auto simp: one_line_def)
  then obtain l0 where l0: "fig_lines F' = [l0]" by (cases "fig_lines F'") auto
  have fig: "figures (snd (animate x (num, 0) y w)) num
               = Some (F'\<lparr>fig_lines := [l0\<lparr>xdata := x, ydata := y\<rparr>]\<rparr>)"
    using F' l0 by (simp add: animate_def set_data_def upd_fig_def)
  have dec: "F'\<lparr>fig_lines := [l0\<lparr>xdata := x, ydata := y\<rparr>]\<rparr>
               = F\<lparr>fig_lines := [l0\<lparr>xdata := x, ydata := y\<rparr>]\<rparr>"
    by (subst F'(3)) simp
  show ?thesis
    using fig dec
    by (simp add: grab_frame_def draw_def recache_data rendering_def split: sum.splits)
qed

lemma grab_frames_end:
  "m = 0 \<or> an_frames A k = Stop \<Longrightarrow> grab_frames A W m k w = ([], Inr w)"
  by (cases m) auto




lemma grab_frames_pos:
  "0 < m \<Longrightarrow> grab_frames A W m k w =
     (case an_frames A k of
        Stop \<Rightarrow> ([], Inr w)
      | Raise e \<Rightarrow> ([], Inl e)
      | Yield y \<Rightarrow>
          (let (arts, w1) = an_func A y w
           in case grab_frame (an_fig A) w1 of Inl e \<Rightarrow> ([], Inl e)
              | Inr p \<Rightarrow>
                  (case wr_grab W k of Some e \<Rightarrow> ([], Inl e)
                   | None \<Rightarrow>
                       (let (ps, r) = grab_frames A W (m - 1) (Suc k) w1 in (p # ps, r)))))"
  using grab_frames.simps(2)[of A W "m - 1" k w] by simp

lemma grab_frames_prefix:
  assumes A: "an_func A = animate x (num, 0)" "an_fig A = num" "an_frames A = g"
  shows "one_line w num F \<Longrightarrow> c \<le> m \<Longrightarrow>
         (\<forall>j. k \<le> j \<and> j < k + c \<longrightarrow>
               (\<exists>y. g j = Yield y \<and> drawable (length x) (length y)) \<and> wr_grab W j = None) \<Longrightarrow>
         \<exists>wc. one_line wc num F \<and> (wc = w \<or> (\<exists>y. wc = set_data (num, 0) x y w)) \<and>
            grab_frames A W m k w =
              (map (\<lambda>j. rendering F (broadcast x (frame_at g j))) [k ..< k + c]
                 @ fst (grab_frames A W (m - c) (k + c) wc),
               snd (grab_frames A W (m - c) (k + c) wc))"
proof (induction c arbitrary: m k w)
  case 0
  then show ?case by (auto intro!: exI[of _ w])
next
  case (Suc c)
  then obtain m' where m: "m = Suc m'" "c \<le> m'" by (cases m) auto
  from Suc.prems(3) obtain y where y: "g k = Yield y" "drawable (length x) (length y)"
    and gk: "wr_grab W k = None" by force
  let ?w1 = "snd (animate x (num, 0) y w)"
  have w1: "?w1 = set_data (num, 0) x y w" by (simp add: animate_def)
  have ol: "one_line ?w1 num F" by (rule animate_one_line[OF Suc.prems(1)])
  have gf: "grab_frame num ?w1 = Inr (rendering F (broadcast x y))"
    using animate_grab_frame[OF Suc.prems(1), of x y] y(2)
    by (simp add: recache_drawable)
  have rest: "\<forall>j. Suc k \<le> j \<and> j < Suc k + c \<longrightarrow>
               (\<exists>y. g j = Yield y \<and> drawable (length x) (length y)) \<and> wr_grab W j = None"
    using Suc.prems(3) by auto
  from Suc.IH[OF ol m(2) rest] obtain wc where wc: "one_line wc num F"
    "wc = ?w1 \<or> (\<exists>y'. wc = set_data (num, 0) x y' ?w1)"
    "grab_frames A W m' (Suc k) ?w1 =
       (map (\<lambda>j. rendering F (broadcast x (frame_at g j))) [Suc k ..< Suc k + c]
          @ fst (grab_frames A W (m' - c) (Suc k + c) wc),
        snd (grab_frames A W (m' - c) (Suc k + c) wc))"
    by blast
  have wcw: "wc = w \<or> (\<exists>y. wc = set_data (num, 0) x y w)"
    using wc(2) w1 by (auto simp: set_data_twice)
  have step: "grab_frames A W m k w =
      (rendering F (broadcast x y) # fst (grab_frames A W m' (Suc k) ?w1),
       snd (grab_frames A W m' (Suc k) ?w1))"
    using A y gf gk by (simp add: m(1) split_beta)
  have upt: "[k ..< Suc k + c] = k # [Suc k ..< Suc k + c]" by (simp add: upt_rec)
  have fa: "frame_at g k = y" using y by (simp add: frame_at_def)
  have idx: "m - Suc c = m' - c" "k + Suc c = Suc k + c" using m by simp_all
  have "grab_frames A W m k w =
      (map (\<lambda>j. rendering F (broadcast x (frame_at g j))) [k ..< k + Suc c]
         @ fst (grab_frames A W (m - Suc c) (k + Suc c) wc),
       snd (grab_frames A W (m - Suc c) (k + Suc c) wc))"
    unfolding step wc(3) idx upt by (simp add: fa del: grab_frames.simps upt_Suc)
  with wc(1) wcw show ?case by blast
qed

lemma grab_frames_world:
  assumes "an_func A = animate x l"
  shows "grab_frames A W m k w = (ps, Inr w') \<Longrightarrow> w' = w \<or> (\<exists>y. w' = set_data l x y w)"
proof (induction m arbitrary: k w ps w')
  case 0
  then show ?case by simp
next
  case (Suc m)
  show ?case
  proof (cases "an_frames A k")
    case Stop
    with Suc.prems show ?thesis by simp
  next
    case (Raise e)
    with Suc.prems show ?thesis by simp
  next
    case (Yield y)
    let ?w1 = "set_data l x y w"
    from Suc.prems Yield assms obtain ps' where "grab_frames A W m (Suc k) ?w1 = (ps', Inr w')"
      by (auto simp: animate_def split_beta split: sum.splits option.splits)
         (metis prod.collapse)
    from Suc.IH[OF this] show ?thesis by (auto simp: set_data_twice)
  qed
qed

subsection \<open>Encoding\<close>

lemma length_drawn_frames [simp]: "length (drawn_frames F x g c) = c"
  by (simp add: drawn_frames_def)

lemma frames_ok_drawable: "frames_ok g len c \<Longrightarrow> frames_drawable g len c"
  by (auto simp: frames_ok_def frames_drawable_def drawable_def)

lemma works_takes: "works W \<Longrightarrow> takes W c"
  by (simp add: works_def takes_def)

lemma saving_prefix:
  assumes A: "an_func A = animate x (num, 0)" "an_fig A = num" "an_frames A = g"
    and I: "an_init_func A = init_frame (num, 0)"
    and ol: "one_line w num F"
    and tk: "takes W c"
    and c: "c \<le> an_save_count A" "frames_drawable g (length x) c"
  shows "\<exists>wc. one_line wc num F \<and> (\<exists>x' y'. wc = set_data (num, 0) x' y' w) \<and>
           saving A W w =
             (let rest = grab_frames A W (an_save_count A - c) c wc;
                  ps = drawn_frames F x g c @ fst rest
              in case wr_finish W (length ps) of Some e \<Rightarrow> Inl e
                 | None \<Rightarrow> (case snd rest of Inl e \<Rightarrow> Inl e | Inr w2 \<Rightarrow> Inr (ps, w2)))"
proof -
  let ?w1 = "snd (init_frame (num, 0) w)"
  have w1: "?w1 = set_data (num, 0) [] [] w" by (simp add: init_frame_def)
  have ol1: "one_line ?w1 num F"
    unfolding init_frame_animate by (rule animate_one_line[OF ol])
  have good: "\<forall>j. 0 \<le> j \<and> j < 0 + c \<longrightarrow>
               (\<exists>y. g j = Yield y \<and> drawable (length x) (length y)) \<and> wr_grab W j = None"
    using c(2) tk by (simp add: frames_drawable_def takes_def)
  from grab_frames_prefix[OF A ol1 c(1) good] obtain wc where wc: "one_line wc num F"
    "wc = ?w1 \<or> (\<exists>y. wc = set_data (num, 0) x y ?w1)"
    "grab_frames A W (an_save_count A) 0 ?w1 =
       (map (\<lambda>j. rendering F (broadcast x (frame_at g j))) [0 ..< 0 + c]
          @ fst (grab_frames A W (an_save_count A - c) (0 + c) wc),
        snd (grab_frames A W (an_save_count A - c) (0 + c) wc))"
    by blast
  have wcw: "\<exists>x' y'. wc = set_data (num, 0) x' y' w"
    using wc(2) w1 by (auto simp: set_data_twice)
  have "saving A W w =
             (let rest = grab_frames A W (an_save_count A - c) c wc;
                  ps = drawn_frames F x g c @ fst rest
              in case wr_finish W (length ps) of Some e \<Rightarrow> Inl e
                 | None \<Rightarrow> (case snd rest of Inl e \<Rightarrow> Inl e | Inr w2 \<Rightarrow> Inr (ps, w2)))"
    using tk wc(3) I
    by (simp add: saving_def takes_def split_beta drawn_frames_def Let_def
        del: grab_frames.simps cong: option.case_cong sum.case_cong)
  with wc(1) wcw show ?thesis by blast
qed

lemma saving_stop:
  assumes A: "an_func A = animate x (num, 0)" "an_fig A = num" "an_frames A = g"
    and I: "an_init_func A = init_frame (num, 0)"
    and ol: "one_line w num F"
    and tk: "takes W c"
    and c: "c \<le> an_save_count A" "frames_drawable g (length x) c"
    and stop: "c = an_save_count A \<or> g c = Stop"
  shows "\<exists>x' y'. saving A W w =
           (case wr_finish W c of Some e \<Rightarrow> Inl e
            | None \<Rightarrow> Inr (drawn_frames F x g c, set_data (num, 0) x' y' w))"
proof -
  from saving_prefix[OF A I ol tk c] obtain wc x' y' where wc: "wc = set_data (num, 0) x' y' w"
    and e: "saving A W w =
             (let rest = grab_frames A W (an_save_count A - c) c wc;
                  ps = drawn_frames F x g c @ fst rest
              in case wr_finish W (length ps) of Some e \<Rightarrow> Inl e
                 | None \<Rightarrow> (case snd rest of Inl e \<Rightarrow> Inl e | Inr w2 \<Rightarrow> Inr (ps, w2)))"
    by blast
  have "grab_frames A W (an_save_count A - c) c wc = ([], Inr wc)"
    using stop A(3) by (intro grab_frames_end) auto
  with e wc have "saving A W w =
           (case wr_finish W c of Some e \<Rightarrow> Inl e
            | None \<Rightarrow> Inr (drawn_frames F x g c, set_data (num, 0) x' y' w))"
    by (simp add: Let_def cong: option.case_cong)
  then show ?thesis by blast
qed



lemma saving_world:
  assumes "an_func A = animate x l" "an_init_func A = init_frame l"
    and "saving A W w = Inr (ps, w')"
  shows "\<exists>x' y'. w' = set_data l x' y' w"
proof -
  from assms(3) obtain qs where g: "grab_frames A W (an_save_count A) 0 (set_data l [] [] w) = (qs, Inr w')"
    by (auto simp: saving_def assms(2) init_frame_def split_beta
        split: option.splits sum.splits) (metis prod.collapse)
  from grab_frames_world[OF assms(1) g] show ?thesis
    by (auto simp: set_data_twice)
qed

subsection \<open>What a call does with its encoder\<close>

lemma start_world_one_line:
  "one_line (start_world gif w xlim ylim title xlabel ylabel) (new_num w)
     (blank_plot xlim ylim title xlabel ylabel)"
  by (simp add: start_world_def closed_plot_one_line)

lemma start_world_fields:
  "fignums (start_world gif w xlim ylim title xlabel ylabel) = fignums w"
  "files (start_world gif w xlim ylim title xlabel ylabel) = files w"
  "rc_animation_html (start_world gif w xlim ylim title xlabel ylabel)
     = (if gif then rc_animation_html w else ''html5'')"
  "rc_animation_writer (start_world gif w xlim ylim title xlabel ylabel) = rc_animation_writer w"
  "writers (start_world gif w xlim ylim title xlabel ylabel) = writers w"
  "pillow (start_world gif w xlim ylim title xlabel ylabel) = pillow w"
  "i \<noteq> new_num w \<Longrightarrow> figures (start_world gif w xlim ylim title xlabel ylabel) i = figures w i"
  "figures (start_world gif w xlim ylim title xlabel ylabel) (new_num w)
     = Some (blank_plot xlim ylim title xlabel ylabel)"
  by (simp_all add: start_world_def closed_plot_def)

lemma emit_saving:
  assumes "an_interval A \<noteq> 0" "gif \<longrightarrow> fn_name P = Some nm" "used_writer gif w = Some W"
  shows "emit P A gif w =
           (case saving A W (if gif then w else w\<lparr>rc_animation_html := ''html5''\<rparr>) of
              Inl e \<Rightarrow> Inl e
            | Inr (ps, w1) \<Rightarrow>
                Inr (delivered gif nm
                       \<lparr>mv_writer = used_name gif w, mv_interval = an_interval A, mv_frames = ps\<rparr>
                       w1))"
proof (cases gif)
  case True
  with assms show ?thesis
    by (auto simp: emit_def save_def used_writer_def used_name_def delivered_def
        split: option.splits sum.splits)
next
  case False
  with assms show ?thesis
    by (auto simp: emit_def to_html5_video_def rc_animation_def used_writer_def used_name_def
        delivered_def lookup_writer_def split: option.splits sum.splits if_splits)
qed

lemma plot_anim_saving:
  assumes lin: "linspace ar (fst xlim) (snd xlim) n = Inr x" and call: "fn_call frame_gen x = Inr g"
    and "delay \<noteq> 0" "gif \<longrightarrow> fn_name frame_gen = Some nm" "used_writer gif w = Some W"
  shows "plot_anim ar frame_gen xlim ylim n delay max_frames title xlabel ylabel gif w =
           (case saving (the_anim w x g delay max_frames) W
                   (start_world gif w xlim ylim title xlabel ylabel) of
              Inl e \<Rightarrow> Inl e
            | Inr (ps, w1) \<Rightarrow>
                Inr (delivered gif nm
                       \<lparr>mv_writer = used_name gif w, mv_interval = delay, mv_frames = ps\<rparr> w1))"
proof -
  let ?W = "closed_plot w xlim ylim title xlabel ylabel"
  have u: "used_writer gif ?W = Some W" "used_name gif ?W = used_name gif w"
    using assms(5)
    by (auto simp: used_writer_def used_name_def closed_plot_fields split: option.splits if_splits)
  have i: "an_interval (the_anim w x g delay max_frames) \<noteq> 0"
    using assms(3) by (simp add: the_anim_fields)
  show ?thesis
    unfolding plot_anim_emit[OF lin call] emit_saving[OF i assms(4) u(1)] u(2)
    by (simp add: start_world_def the_anim_fields cong: sum.case_cong)
qed

lemma can_encodeD:
  assumes "can_encode frame_gen gif delay w"
  obtains W where "delay \<noteq> 0" "gif \<longrightarrow> fn_name frame_gen \<noteq> None"
    "used_writer gif w = Some W" "works W"
  using assms by (auto simp: can_encode_def split: option.splits)

lemma plot_anim_stop:
  assumes lin: "linspace ar (fst xlim) (snd xlim) n = Inr x" and call: "fn_call frame_gen x = Inr g"
    and "delay \<noteq> 0" "gif \<longrightarrow> fn_name frame_gen = Some nm" "used_writer gif w = Some W"
    and tk: "takes W c"
    and c: "c \<le> max_frames" "frames_drawable g (length x) c" "c = max_frames \<or> g c = Stop"
  shows "\<exists>x' y'. plot_anim ar frame_gen xlim ylim n delay max_frames title xlabel ylabel gif w =
           (case wr_finish W c of Some e \<Rightarrow> Inl e
            | None \<Rightarrow>
                Inr (delivered gif nm
                       \<lparr>mv_writer = used_name gif w, mv_interval = delay,
                        mv_frames = drawn_frames (blank_plot xlim ylim title xlabel ylabel) x g c\<rparr>
                       (set_data (new_num w, 0) x' y'
                          (start_world gif w xlim ylim title xlabel ylabel))))"
proof -
  let ?A = "the_anim w x g delay max_frames"
  have c': "c \<le> an_save_count ?A" "c = an_save_count ?A \<or> g c = Stop"
    using c by (simp_all add: the_anim_fields)
  from saving_stop[OF the_anim_fields(1,2,3,4) start_world_one_line tk c'(1) c(2) c'(2)]
  obtain x' y' where "saving ?A W (start_world gif w xlim ylim title xlabel ylabel) =
           (case wr_finish W c of Some e \<Rightarrow> Inl e
            | None \<Rightarrow> Inr (drawn_frames (blank_plot xlim ylim title xlabel ylabel) x g c,
                          set_data (new_num w, 0) x' y'
                            (start_world gif w xlim ylim title xlabel ylabel)))"
    by blast
  then have "plot_anim ar frame_gen xlim ylim n delay max_frames title xlabel ylabel gif w =
           (case wr_finish W c of Some e \<Rightarrow> Inl e
            | None \<Rightarrow>
                Inr (delivered gif nm
                       \<lparr>mv_writer = used_name gif w, mv_interval = delay,
                        mv_frames = drawn_frames (blank_plot xlim ylim title xlabel ylabel) x g c\<rparr>
                       (set_data (new_num w, 0) x' y'
                          (start_world gif w xlim ylim title xlabel ylabel))))"
    by (simp add: plot_anim_saving[OF lin call assms(3,4,5)] split: option.splits)
  then show ?thesis by blast
qed

lemma plot_anim_video:
  assumes lin: "linspace ar (fst xlim) (snd xlim) n = Inr x" and call: "fn_call frame_gen x = Inr g"
    and enc: "can_encode frame_gen False delay w"
    and c: "c \<le> max_frames" "frames_drawable g (length x) c" "c = max_frames \<or> g c = Stop"
  shows "\<exists>w'. plot_anim ar frame_gen xlim ylim n delay max_frames title xlabel ylabel False w =
           Inr (Some (HTML \<lparr>mv_writer = rc_animation_writer w, mv_interval = delay,
                  mv_frames = drawn_frames (blank_plot xlim ylim title xlabel ylabel) x g c\<rparr>), w') \<and>
           files w' = files w"
proof -
  from enc obtain W where W: "delay \<noteq> 0" "used_writer False w = Some W" "works W"
    by (rule can_encodeD)
  have nm: "False \<longrightarrow> fn_name frame_gen = Some []" by simp
  from plot_anim_stop[OF lin call W(1) nm W(2) works_takes[OF W(3)] c, of ylim title xlabel ylabel]
    W(3)
  show ?thesis
    by (auto simp: works_def delivered_def used_name_def set_data_fields start_world_fields)
qed

lemma plot_anim_file:
  assumes lin: "linspace ar (fst xlim) (snd xlim) n = Inr x" and call: "fn_call frame_gen x = Inr g"
    and enc: "can_encode frame_gen True delay w" and nm: "fn_name frame_gen = Some nm"
    and c: "c \<le> max_frames" "frames_drawable g (length x) c" "c = max_frames \<or> g c = Stop"
  shows "\<exists>w'. plot_anim ar frame_gen xlim ylim n delay max_frames title xlabel ylabel True w =
           Inr (None, w') \<and>
           files w' = (files w)(nm @ ''.gif'' \<mapsto>
             \<lparr>mv_writer = used_name True w, mv_interval = delay,
              mv_frames = drawn_frames (blank_plot xlim ylim title xlabel ylabel) x g c\<rparr>)"
proof -
  from enc obtain W where W: "delay \<noteq> 0" "used_writer True w = Some W" "works W"
    by (rule can_encodeD)
  have nm': "True \<longrightarrow> fn_name frame_gen = Some nm" using nm by simp
  from plot_anim_stop[OF lin call W(1) nm' W(2) works_takes[OF W(3)] c, of ylim title xlabel ylabel]
    W(3)
  show ?thesis
    by (auto simp: works_def delivered_def set_data_fields start_world_fields)
qed


lemma plot_anim_Inr:
  assumes "plot_anim ar frame_gen xlim ylim n delay max_frames title xlabel ylabel gif w = Inr (r, w')"
  shows "\<exists>x g. linspace ar (fst xlim) (snd xlim) n = Inr x \<and> fn_call frame_gen x = Inr g \<and>
     emit frame_gen (the_anim w x g delay max_frames) gif
       (closed_plot w xlim ylim title xlabel ylabel) = Inr (r, w')"
  using assms by (auto simp: plot_anim_def plot_frames_setup split: sum.splits)

lemma plot_anim_world:
  assumes "plot_anim ar frame_gen xlim ylim n delay max_frames title xlabel ylabel gif w = Inr (r, w')"
  shows "\<exists>x' y' mv nm. (gif \<longrightarrow> fn_name frame_gen = Some nm) \<and>
           mv_writer mv = used_name gif w \<and>
           (r, w') = delivered gif nm mv
                      (set_data (new_num w, 0) x' y'
                         (start_world gif w xlim ylim title xlabel ylabel))"
proof -
  from plot_anim_Inr[OF assms] obtain x g where
    e: "emit frame_gen (the_anim w x g delay max_frames) gif
          (closed_plot w xlim ylim title xlabel ylabel) = Inr (r, w')" by blast
  let ?A = "the_anim w x g delay max_frames"
  let ?W = "closed_plot w xlim ylim title xlabel ylabel"
  from e have i: "an_interval ?A \<noteq> 0"
    by (auto simp: emit_def save_def to_html5_video_def Let_def rc_animation_def
        split: if_splits option.splits sum.splits)
  have "\<exists>nm. gif \<longrightarrow> fn_name frame_gen = Some nm"
    using e by (cases "fn_name frame_gen"; cases gif) (auto simp: emit_def)
  then obtain nm where nm: "gif \<longrightarrow> fn_name frame_gen = Some nm" by blast
  have "\<exists>W. used_writer gif ?W = Some W"
    using e by (cases gif) (auto simp: used_writer_def emit_def to_html5_video_def rc_animation_def
        lookup_writer_def Let_def split: option.splits if_splits)
  then obtain W where W: "used_writer gif ?W = Some W" by blast
  from e[unfolded emit_saving[OF i nm W]] obtain ps w1 where
    s: "saving ?A W (if gif then ?W else ?W\<lparr>rc_animation_html := ''html5''\<rparr>) = Inr (ps, w1)"
    and d: "(r, w') = delivered gif nm
              \<lparr>mv_writer = used_name gif ?W, mv_interval = an_interval ?A, mv_frames = ps\<rparr> w1"
    by (auto split: sum.splits)
  from saving_world[OF the_anim_fields(1,4) s] obtain x' y' where
    "w1 = set_data (new_num w, 0) x' y' (start_world gif w xlim ylim title xlabel ylabel)"
    by (auto simp: start_world_def)
  with d nm show ?thesis
    by (intro exI[of _ x'] exI[of _ y'] exI[of _ "\<lparr>mv_writer = used_name gif ?W,
          mv_interval = an_interval ?A, mv_frames = ps\<rparr>"] exI[of _ nm])
       (simp add: used_name_def closed_plot_fields)
qed

subsection \<open>Running the model on concrete inputs\<close>

lemmas run_defs = plot_anim_def plot_frames_def subplots_def set_xlim_def set_ylim_def
  if_truthy_def plt_title_def plt_xlabel_def plt_ylabel_def gcf_def upd_fig_def ax_plot_def
  new_figure_def plt_close_def FuncAnimation_def emit_def save_def to_html5_video_def
  rc_animation_def saving_def lookup_writer_def init_frame_def animate_def set_data_def
  grab_frame_def draw_def recache_def broadcast_def linspace_def exact_def Let_def
  grab_frames_pos upt_conv_Cons eval_nat_numeral

lemmas fixture_defs = fresh_world_def no_imagemagick_def good_writer_def pillow_writer_def
  two_frames_def echo_def one_value_def short_frame_def failing_def nameless_def
  video_curves_def returned_def world_after_def

lemma gif_result_none:
  assumes "plot_anim ar frame_gen xlim ylim n delay max_frames title xlabel ylabel True w = Inr (r, w')"
  shows "r = None"
  using plot_anim_world[OF assms] by (auto simp: delivered_def)

lemma fresh_can_encode: "can_encode two_frames gif 20 fresh_world"
  "can_encode failing gif 20 fresh_world" "can_encode short_frame gif 20 fresh_world"
  "can_encode one_value gif 20 fresh_world"
  by (simp_all add: can_encode_def used_writer_def lookup_writer_def works_def fixture_defs)

lemma drawn_frames_curves:
  assumes "frames_ok g (length x) k"
  shows "map pic_curves (drawn_frames F x g k) = map (\<lambda>j. [zip x (frame_at g j)]) [0 ..< k]"
proof -
  have "length (frame_at g j) = length x" if "j < k" for j
    using assms that by (auto simp: frames_ok_def frame_at_def)
  then show ?thesis
    by (simp add: drawn_frames_def rendering_def broadcast_same)
qed


subsection \<open>When a call raises\<close>








section \<open>The specification of \<open>plot_anim\<close>, statement by statement\<close>

subsection \<open>C1: the domain points\<close>

text \<open>
  C1, as stated, wants the single entry to be the upper end \<open>b\<close> when \<open>n = 1\<close>. With
  \<open>xlim = (0, 5)\<close> and \<open>n = 1\<close> the generator receives \<open>[0]\<close>: the video of the identity
  generator shows the one point \<open>(0, 0)\<close>, not \<open>(5, 5)\<close>.
\<close>

theorem single_sample_is_start:
  "linspace exact 0 5 1 = Inr [0] \<and>
   video_curves (plot_anim exact echo (0, 5) (-10, 10) 1 20 1000 None None None False fresh_world)
     = [[[(0, 0)]]]"
  by (simp add: run_defs fixture_defs)

text \<open>
  C1 (amended): for \<open>n \<ge> 1\<close> and \<open>xlim = (a, b)\<close>, sequence construction returns exactly \<open>n\<close>
  entries, and \<open>plot_anim\<close> passes them to the frame generator as they are. The entries
  are computed in floating-point arithmetic, whatever its rounding: for \<open>n = 1\<close> the
  single entry is \<open>0 * (b - a) + a\<close>; for \<open>n > 1\<close> the last entry is \<open>b\<close> itself, and entry
  \<open>i < n - 1\<close> is \<open>i * step + a\<close> with \<open>step = (b - a) / (n - 1)\<close>, or \<open>(i / (n - 1)) * (b - a) + a\<close>
  when the step is zero, each operation rounded. Where the arithmetic is exact, entry
  \<open>i\<close> is \<open>a + i (b - a) / (n - 1)\<close> for \<open>n > 1\<close>, and the single entry for \<open>n = 1\<close> is \<open>a\<close>.
\<close>

theorem domain_sequence_evenly_spaced:
  assumes "1 \<le> n"
  shows "(\<exists>xs. linspace ar a b n = Inr xs \<and> length xs = nat n \<and>
           (n = 1 \<longrightarrow> xs = [single_entry ar a b]) \<and>
           (1 < n \<longrightarrow> xs ! (nat n - 1) = b \<and>
                      (\<forall>i < nat n - 1. xs ! i = inner_entry ar a b n i)) \<and>
           plot_anim ar frame_gen (a, b) ylim n delay max_frames title xlabel ylabel gif w =
             (case fn_call frame_gen xs of Inl e \<Rightarrow> Inl e
              | Inr g \<Rightarrow> plot_frames frame_gen xs g (a, b) ylim delay max_frames
                           title xlabel ylabel gif w)) \<and>
         (\<exists>xs. linspace exact a' b' n = Inr xs \<and> length xs = nat n \<and>
           (\<forall>i < nat n. xs ! i = (if n = 1 then a'
                                    else a' + real i * (b' - a') / real_of_int (n - 1))))"
proof
  from assms linspace_ok[of n ar a b] obtain xs where xs: "linspace ar a b n = Inr xs" "length xs = nat n"
    by auto
  have one: "n = 1 \<longrightarrow> xs = [single_entry ar a b]"
    using xs by (auto simp: linspace_one)
  have last: "xs ! (nat n - 1) = b" if "1 < n"
    using linspace_last[OF that, of ar a b] xs by simp
  have inner: "xs ! i = inner_entry ar a b n i" if "1 < n" "i < nat n - 1" for i
    using linspace_inner[OF that, of ar a b] xs by simp
  have "plot_anim ar frame_gen (a, b) ylim n delay max_frames title xlabel ylabel gif w =
             (case fn_call frame_gen xs of Inl e \<Rightarrow> Inl e
              | Inr g \<Rightarrow> plot_frames frame_gen xs g (a, b) ylim delay max_frames
                           title xlabel ylabel gif w)"
    using xs by (simp add: plot_anim_def)
  with xs one last inner
  show "\<exists>xs. linspace ar a b n = Inr xs \<and> length xs = nat n \<and>
           (n = 1 \<longrightarrow> xs = [single_entry ar a b]) \<and>
           (1 < n \<longrightarrow> xs ! (nat n - 1) = b \<and>
                      (\<forall>i < nat n - 1. xs ! i = inner_entry ar a b n i)) \<and>
           plot_anim ar frame_gen (a, b) ylim n delay max_frames title xlabel ylabel gif w =
             (case fn_call frame_gen xs of Inl e \<Rightarrow> Inl e
              | Inr g \<Rightarrow> plot_frames frame_gen xs g (a, b) ylim delay max_frames
                           title xlabel ylabel gif w)"
    by blast
next
  from assms linspace_ok[of n exact a' b'] obtain xs where
    xs: "linspace exact a' b' n = Inr xs" "length xs = nat n" by auto
  have nth: "xs ! i = (if n = 1 then a' else a' + real i * (b' - a') / real_of_int (n - 1))"
    if "i < nat n" for i
  proof (cases "n = 1")
    case True
    with xs that show ?thesis by (auto simp: linspace_one single_entry_exact)
  next
    case False
    with assms have "1 < n" by simp
    from linspace_exact_nth[OF this that, of a' b'] xs False show ?thesis by simp
  qed
  with xs show "\<exists>xs. linspace exact a' b' n = Inr xs \<and> length xs = nat n \<and>
           (\<forall>i < nat n. xs ! i = (if n = 1 then a'
                                    else a' + real i * (b' - a') / real_of_int (n - 1)))"
    by blast
qed

theorem domain_sequence_evenly_spaced_witness:
  "(1::int) \<le> 5 \<and>
   (\<exists>xs. linspace exact 0 1 5 = Inr xs \<and> length xs = nat 5 \<and>
           xs ! (nat 5 - 1) = 1 \<and>
           (\<forall>i < nat 5 - 1. xs ! i = inner_entry exact 0 1 5 i) \<and>
           plot_anim exact two_frames (0, 1) (-10, 10) 5 20 1000 None None None False fresh_world =
             (case fn_call two_frames xs of Inl e \<Rightarrow> Inl e
              | Inr g \<Rightarrow> plot_frames two_frames xs g (0, 1) (-10, 10) 20 1000
                           None None None False fresh_world)) \<and>
   (\<exists>xs. linspace exact 0 1 5 = Inr xs \<and> length xs = nat 5 \<and>
           (\<forall>i < nat 5. xs ! i = (if (5::int) = 1 then 0
                                    else 0 + real i * (1 - 0) / real_of_int (5 - 1))))"
proof -
  have h: "(1::int) \<le> 5" by simp
  from domain_sequence_evenly_spaced[OF h, where ar = exact and a = 0 and b = 1 and a' = 0
      and b' = 1 and frame_gen = two_frames and ylim = "(-10, 10)" and delay = 20
      and max_frames = 1000 and title = None and xlabel = None and ylabel = None and gif = False
      and w = fresh_world]
  show ?thesis by auto
qed

subsection \<open>C2: the file path\<close>

text \<open>
  C2, as stated, has the file written by the imagemagick encoder. On a machine where
  imagemagick is not available matplotlib falls back on its Pillow writer, and the
  call returns with the file written by that.
\<close>

theorem pillow_writes_the_file:
  "returned (plot_anim exact two_frames (0, 1) (-10, 10) 5 20 1000 None None None True no_imagemagick) \<and>
   map_option mv_writer (files (world_after
      (plot_anim exact two_frames (0, 1) (-10, 10) 5 20 1000 None None None True no_imagemagick)
      no_imagemagick) ''two_frames.gif'') = Some ''pillow''"
  by (simp add: run_defs fixture_defs)

text \<open>
  C2 (amended): a call with \<open>gif\<close> true that returns has returned \<open>None\<close>, and has written
  the movie to the file named \<open>frame_gen.__name__\<close> followed by \<open>.gif\<close>: with the writer
  \<open>imagemagick\<close> when it is available, with Pillow otherwise.
\<close>

theorem gif_writes_named_file:
  assumes "plot_anim ar frame_gen xlim ylim n delay max_frames title xlabel ylabel True w = Inr (r, w')"
  shows "r = None \<and>
         (\<exists>nm mv. fn_name frame_gen = Some nm \<and>
                   files w' = (files w)(nm @ ''.gif'' \<mapsto> mv) \<and>
                   mv_writer mv = (if writers w ''imagemagick'' = None then ''pillow''
                                   else ''imagemagick''))"
  using plot_anim_world[OF assms]
  by (auto simp: delivered_def used_name_def lookup_writer_def set_data_fields start_world_fields)

theorem gif_writes_named_file_witness:
  "\<exists>w' mv. plot_anim exact two_frames (0, 1) (-10, 10) 5 20 1000 None None None True fresh_world
              = Inr (None, w') \<and>
           mv_writer mv = ''imagemagick'' \<and>
           files w' = (files fresh_world)(''two_frames.gif'' \<mapsto> mv)"
proof -
  have "returned (plot_anim exact two_frames (0, 1) (-10, 10) 5 20 1000 None None None True fresh_world)"
    by (simp add: run_defs fixture_defs)
  then obtain r w' where run:
    "plot_anim exact two_frames (0, 1) (-10, 10) 5 20 1000 None None None True fresh_world = Inr (r, w')"
    by (auto simp: returned_def split: sum.splits)
  from gif_writes_named_file[OF run] run show ?thesis
    by (auto simp: two_frames_def fresh_world_def)
qed

subsection \<open>C3: the video path\<close>




subsection \<open>C4: the initialization and update steps\<close>

text \<open>
  C4: on an existing line, \<open>init_frame\<close> sets the data to two empty arrays and \<open>animate\<close>
  sets it to the pair of the domain points and the frame; both return the line. The
  animation object of a call is built from exactly these two closures over the line
  of the new figure and the one sequence of domain points, on a line that is still
  empty; and in a call that returns a video, the curve of every frame pairs those same
  domain points with that frame's values.
\<close>

theorem init_and_update_steps:
  "(get_data line w \<noteq> None \<longrightarrow>
      fst (init_frame line w) = [line] \<and>
      get_data line (snd (init_frame line w)) = Some ([], []) \<and>
      fst (animate x line y w) = [line] \<and>
      get_data line (snd (animate x line y w)) = Some (x, y)) \<and>
   plot_frames frame_gen x g xlim ylim delay max_frames title xlabel ylabel gif w =
     emit frame_gen
       (FuncAnimation (new_num w) (animate x (new_num w, 0)) (init_frame (new_num w, 0))
          max_frames g delay True)
       gif (closed_plot w xlim ylim title xlabel ylabel) \<and>
   get_data (new_num w, 0) (closed_plot w xlim ylim title xlabel ylabel) = Some ([], []) \<and>
   (linspace ar (fst xlim) (snd xlim) n = Inr x \<and> fn_call frame_gen x = Inr g \<and>
    frames_ok g (nat n) k \<and> g k = Stop \<and> k \<le> max_frames \<and>
    can_encode frame_gen False delay w \<longrightarrow>
      (\<exists>mv w'. plot_anim ar frame_gen xlim ylim n delay max_frames title xlabel ylabel False w
                  = Inr (Some (HTML mv), w') \<and>
               map pic_curves (mv_frames mv) = map (\<lambda>j. [zip x (frame_at g j)]) [0 ..< k]))"
proof (intro conjI impI)
  assume "get_data line w \<noteq> None"
  then show "get_data line (snd (init_frame line w)) = Some ([], [])"
    "get_data line (snd (animate x line y w)) = Some (x, y)"
    by (simp_all add: init_frame_def animate_def get_set_data)
next
  show "fst (init_frame line w) = [line]" "fst (animate x line y w) = [line]"
    by (simp_all add: init_frame_def animate_def)
next
  show "plot_frames frame_gen x g xlim ylim delay max_frames title xlabel ylabel gif w =
     emit frame_gen
       (FuncAnimation (new_num w) (animate x (new_num w, 0)) (init_frame (new_num w, 0))
          max_frames g delay True)
       gif (closed_plot w xlim ylim title xlabel ylabel)"
    by (simp add: plot_frames_setup the_anim_def)
next
  show "get_data (new_num w, 0) (closed_plot w xlim ylim title xlabel ylabel) = Some ([], [])"
    by (simp add: get_data_def closed_plot_def blank_plot_def)
next
  assume a: "linspace ar (fst xlim) (snd xlim) n = Inr x \<and> fn_call frame_gen x = Inr g \<and>
    frames_ok g (nat n) k \<and> g k = Stop \<and> k \<le> max_frames \<and>
    can_encode frame_gen False delay w"
  then have len: "length x = nat n" using linspace_length[of ar "fst xlim" "snd xlim" n x] by simp
  from a len have ok: "frames_ok g (length x) k" by simp
  then have dr: "frames_drawable g (length x) k" by (rule frames_ok_drawable)
  from a have lin: "linspace ar (fst xlim) (snd xlim) n = Inr x" and call: "fn_call frame_gen x = Inr g"
    and enc: "can_encode frame_gen False delay w" and k: "k \<le> max_frames"
    and stop: "k = max_frames \<or> g k = Stop" by simp_all
  from plot_anim_video[OF lin call enc k dr stop, where title = title and xlabel = xlabel
      and ylabel = ylabel and ylim = ylim]
  show "\<exists>mv w'. plot_anim ar frame_gen xlim ylim n delay max_frames title xlabel ylabel False w
                  = Inr (Some (HTML mv), w') \<and>
               map pic_curves (mv_frames mv) = map (\<lambda>j. [zip x (frame_at g j)]) [0 ..< k]"
    using drawn_frames_curves[OF ok] by fastforce
qed

theorem init_and_update_steps_witness:
  "get_data (1, 0) (closed_plot fresh_world (0, 1) (-10, 10) None None None) \<noteq> None \<and>
   get_data (1, 0) (snd (init_frame (1, 0) (closed_plot fresh_world (0, 1) (-10, 10) None None None)))
     = Some ([], []) \<and>
   get_data (1, 0) (snd (animate [0, 1] (1, 0) [3, 4]
                          (closed_plot fresh_world (0, 1) (-10, 10) None None None)))
     = Some ([0, 1], [3, 4]) \<and>
   (\<exists>mv w'. plot_anim exact two_frames (0, 1) (-10, 10) 5 20 1000 None None None False fresh_world
              = Inr (Some (HTML mv), w') \<and>
            map pic_curves (mv_frames mv) =
              [[[(0, 0), (1/4, 0), (1/2, 0), (3/4, 0), (1, 0)]],
               [[(0, 1), (1/4, 1), (1/2, 1), (3/4, 1), (1, 1)]]])"
proof -
  let ?x = "[0, 1/4, 1/2, 3/4, 1] :: real list"
  let ?g = "\<lambda>k::nat. if k = 0 then Yield (map (\<lambda>_. 0) ?x)
                     else if k = 1 then Yield (map (\<lambda>_. 1) ?x) else (Stop :: real step)"
  let ?W = "closed_plot fresh_world (0, 1) (-10, 10) None None None"
  have ex: "get_data (1, 0) ?W \<noteq> None"
    by (simp add: get_data_def closed_plot_def blank_plot_def new_num_def fresh_world_def)
  have lin: "linspace exact (fst (0, 1)) (snd (0, 1)) 5 = Inr ?x" by (simp add: linspace_0_1_5)
  have call: "fn_call two_frames ?x = Inr ?g" by (simp add: two_frames_def)
  have ok: "frames_ok ?g (nat 5) 2" by (simp add: frames_ok_def less_Suc_eq numeral_2_eq_2)
  have stop: "?g 2 = Stop" by simp
  note u = init_and_update_steps[where w = fresh_world and x = ?x and g = ?g and n = 5 and k = 2
      and ar = exact
      and frame_gen = two_frames and xlim = "(0, 1)" and ylim = "(-10, 10)" and delay = 20
      and max_frames = 1000 and title = None and xlabel = None and ylabel = None]
  have a: "get_data (1, 0) (snd (init_frame (1, 0) ?W)) = Some ([], [])"
    using init_and_update_steps[where line = "(1, 0)" and w = "?W"] ex by blast
  have b: "get_data (1, 0) (snd (animate [0, 1] (1, 0) [3, 4] ?W)) = Some ([0, 1], [3, 4])"
    using init_and_update_steps[where line = "(1, 0)" and w = "?W" and x = "[0, 1]" and y = "[3, 4]"] ex
    by blast
  have c: "\<exists>mv w'. plot_anim exact two_frames (0, 1) (-10, 10) 5 20 1000 None None None False fresh_world
              = Inr (Some (HTML mv), w') \<and>
            map pic_curves (mv_frames mv) = map (\<lambda>j. [zip ?x (frame_at ?g j)]) [0 ..< 2]"
  proof -
    have le: "(2::nat) \<le> 1000" by simp
    have enc: "can_encode two_frames False 20 fresh_world" by (rule fresh_can_encode(1))
    have pre: "linspace exact (fst (0, 1)) (snd (0, 1)) 5 = Inr ?x \<and> fn_call two_frames ?x = Inr ?g \<and>
      frames_ok ?g (nat 5) 2 \<and> ?g 2 = Stop \<and> (2::nat) \<le> 1000 \<and>
      can_encode two_frames False 20 fresh_world"
      by (intro conjI lin call ok stop le enc)
    from u[THEN conjunct2, THEN conjunct2, THEN conjunct2, THEN mp, OF pre] show ?thesis .
  qed
  have "map (\<lambda>j. [zip ?x (frame_at ?g j)]) [0 ..< 2] =
              [[[(0, 0), (1/4, 0), (1/2, 0), (3/4, 0), (1, 0)]],
               [[(0, 1), (1/4, 1), (1/2, 1), (3/4, 1), (1, 1)]]]"
    by (simp add: frame_at_def upt_conv_Cons numeral_2_eq_2)
  with a b c ex show ?thesis by simp
qed

subsection \<open>C5: no samples, or a degenerate range\<close>




subsection \<open>C6: frames of the wrong length\<close>




subsection \<open>C7: failures propagate\<close>




subsection \<open>C8: one artifact, figure closed\<close>

text \<open>
  C8: a call that returns has produced exactly one artifact: with \<open>gif\<close> true no value
  and one written file, with \<open>gif\<close> false an \<open>HTML\<close> video and no written file. The figure
  it created is not among the open figures, which are those of before the call.
\<close>

theorem one_artifact_and_figure_closed:
  assumes "plot_anim ar frame_gen xlim ylim n delay max_frames title xlabel ylabel gif w = Inr (r, w')"
  shows "(if gif
          then r = None \<and>
               (\<exists>nm mv. fn_name frame_gen = Some nm \<and> files w' = (files w)(nm @ ''.gif'' \<mapsto> mv))
          else (\<exists>mv. r = Some (HTML mv)) \<and> files w' = files w) \<and>
         fignums w' = fignums w \<and> new_num w \<notin> set (fignums w')"
  using plot_anim_world[OF assms] new_num_fresh[of w]
  by (cases gif) (auto simp: delivered_def set_data_fields start_world_fields)

theorem one_artifact_and_figure_closed_witness:
  "\<exists>r w'. plot_anim exact two_frames (0, 1) (-10, 10) 5 20 1000 None None None False fresh_world
              = Inr (r, w') \<and>
          (\<exists>mv. r = Some (HTML mv)) \<and> files w' = files fresh_world \<and>
          fignums w' = fignums fresh_world \<and> new_num fresh_world \<notin> set (fignums w')"
proof -
  have "returned (plot_anim exact two_frames (0, 1) (-10, 10) 5 20 1000 None None None False fresh_world)"
    by (simp add: run_defs fixture_defs)
  then obtain r w' where run:
    "plot_anim exact two_frames (0, 1) (-10, 10) 5 20 1000 None None None False fresh_world = Inr (r, w')"
    by (auto simp: returned_def split: sum.splits)
  from one_artifact_and_figure_closed[OF run] run show ?thesis by auto
qed

subsection \<open>C9: state left behind\<close>

text \<open>
  C9, as stated, allows only a written file to outlive the call. A call with \<open>gif\<close>
  false also leaves the global setting \<open>rcParams['animation.html']\<close> at \<open>html5\<close>.
\<close>

theorem html_setting_persists:
  "returned (plot_anim exact two_frames (0, 1) (-10, 10) 5 20 1000 None None None False fresh_world) \<and>
   rc_animation_html fresh_world = ''none'' \<and>
   rc_animation_html
     (world_after (plot_anim exact two_frames (0, 1) (-10, 10) 5 20 1000 None None None False fresh_world)
        fresh_world) = ''html5''"
  by (simp add: run_defs fixture_defs)

text \<open>
  C9 (amended): after a call that returns, the open figures, every figure other than
  the one the call created, the writer setting and the encoders are as before; in the
  file path the \<open>html\<close> setting is as before and one file is written; in the video path
  the files are as before and the \<open>html\<close> setting is \<open>html5\<close>.
\<close>

theorem state_left_behind:
  assumes "plot_anim ar frame_gen xlim ylim n delay max_frames title xlabel ylabel gif w = Inr (r, w')"
  shows "fignums w' = fignums w \<and>
         (\<forall>i. i \<noteq> new_num w \<longrightarrow> figures w' i = figures w i) \<and>
         new_num w \<notin> set (fignums w) \<and>
         rc_animation_writer w' = rc_animation_writer w \<and>
         writers w' = writers w \<and> pillow w' = pillow w \<and>
         (if gif
          then rc_animation_html w' = rc_animation_html w \<and>
               (\<exists>nm mv. fn_name frame_gen = Some nm \<and> files w' = (files w)(nm @ ''.gif'' \<mapsto> mv))
          else rc_animation_html w' = ''html5'' \<and> files w' = files w)"
  using plot_anim_world[OF assms] new_num_fresh[of w]
  by (cases gif) (auto simp: delivered_def set_data_fields start_world_fields set_data_other)

theorem state_left_behind_witness:
  "\<exists>r w' mv. plot_anim exact two_frames (0, 1) (-10, 10) 5 20 1000 None None None True fresh_world
              = Inr (r, w') \<and>
          fignums w' = fignums fresh_world \<and>
          (\<forall>i. i \<noteq> new_num fresh_world \<longrightarrow> figures w' i = figures fresh_world i) \<and>
          rc_animation_writer w' = rc_animation_writer fresh_world \<and>
          writers w' = writers fresh_world \<and> pillow w' = pillow fresh_world \<and>
          rc_animation_html w' = rc_animation_html fresh_world \<and>
          files w' = (files fresh_world)(''two_frames.gif'' \<mapsto> mv)"
proof -
  have "returned (plot_anim exact two_frames (0, 1) (-10, 10) 5 20 1000 None None None True fresh_world)"
    by (simp add: run_defs fixture_defs)
  then obtain r w' where run:
    "plot_anim exact two_frames (0, 1) (-10, 10) 5 20 1000 None None None True fresh_world = Inr (r, w')"
    by (auto simp: returned_def split: sum.splits)
  from state_left_behind[OF run] run show ?thesis by (auto simp: two_frames_def)
qed

subsection \<open>C10: falsy decorations\<close>

text \<open>
  C10: an empty title, x label or y label gives the same call as the omitted argument,
  and after a call that returns, each decoration of the figure is the argument when
  it is truthy and unset otherwise.
\<close>

theorem falsy_decorations_left_unset:
  "plot_anim ar frame_gen xlim ylim n delay max_frames (Some []) xlabel ylabel gif w =
     plot_anim ar frame_gen xlim ylim n delay max_frames None xlabel ylabel gif w \<and>
   plot_anim ar frame_gen xlim ylim n delay max_frames title (Some []) ylabel gif w =
     plot_anim ar frame_gen xlim ylim n delay max_frames title None ylabel gif w \<and>
   plot_anim ar frame_gen xlim ylim n delay max_frames title xlabel (Some []) gif w =
     plot_anim ar frame_gen xlim ylim n delay max_frames title xlabel None gif w \<and>
   (plot_anim ar frame_gen xlim ylim n delay max_frames title xlabel ylabel gif w = Inr (r, w') \<longrightarrow>
      (\<exists>F. figures w' (new_num w) = Some F \<and>
           fig_title F = (if truthy title then title else None) \<and>
           fig_xlabel F = (if truthy xlabel then xlabel else None) \<and>
           fig_ylabel F = (if truthy ylabel then ylabel else None)))"
proof (intro conjI impI)
  show "plot_anim ar frame_gen xlim ylim n delay max_frames (Some []) xlabel ylabel gif w =
     plot_anim ar frame_gen xlim ylim n delay max_frames None xlabel ylabel gif w"
    by (simp add: plot_anim_def plot_frames_falsy cong: sum.case_cong)
  show "plot_anim ar frame_gen xlim ylim n delay max_frames title (Some []) ylabel gif w =
     plot_anim ar frame_gen xlim ylim n delay max_frames title None ylabel gif w"
    by (simp add: plot_anim_def plot_frames_falsy cong: sum.case_cong)
  show "plot_anim ar frame_gen xlim ylim n delay max_frames title xlabel (Some []) gif w =
     plot_anim ar frame_gen xlim ylim n delay max_frames title xlabel None gif w"
    by (simp add: plot_anim_def plot_frames_falsy cong: sum.case_cong)
next
  assume run: "plot_anim ar frame_gen xlim ylim n delay max_frames title xlabel ylabel gif w = Inr (r, w')"
  let ?W = "start_world gif w xlim ylim title xlabel ylabel"
  let ?F = "blank_plot xlim ylim title xlabel ylabel"
  have F: "figures ?W (new_num w) = Some ?F" by (simp add: start_world_fields)
  from plot_anim_world[OF run] obtain x' y' where
    "w' = set_data (new_num w, 0) x' y' ?W \<or>
     (\<exists>fs. w' = (set_data (new_num w, 0) x' y' ?W)\<lparr>files := fs\<rparr>)"
    by (cases gif) (auto simp: delivered_def)
  then have "\<exists>F'. figures w' (new_num w) = Some F' \<and> fig_title F' = fig_title ?F \<and>
           fig_xlabel F' = fig_xlabel ?F \<and> fig_ylabel F' = fig_ylabel ?F"
    using set_data_decor[OF F, of "(new_num w, 0)" x' y'] by auto
  then show "\<exists>F. figures w' (new_num w) = Some F \<and>
           fig_title F = (if truthy title then title else None) \<and>
           fig_xlabel F = (if truthy xlabel then xlabel else None) \<and>
           fig_ylabel F = (if truthy ylabel then ylabel else None)"
    by (simp add: blank_plot_def decorated_def)
qed

theorem falsy_decorations_left_unset_witness:
  "\<exists>w' F. plot_anim exact two_frames (0, 1) (-10, 10) 5 20 1000 (Some ''T'') (Some []) None True fresh_world
              = Inr (None, w') \<and>
          plot_anim exact two_frames (0, 1) (-10, 10) 5 20 1000 (Some ''T'') None None True fresh_world
              = Inr (None, w') \<and>
          figures w' 1 = Some F \<and> fig_title F = Some ''T'' \<and> fig_xlabel F = None \<and>
          fig_ylabel F = None"
proof -
  have "returned (plot_anim exact two_frames (0, 1) (-10, 10) 5 20 1000 (Some ''T'') (Some []) None True fresh_world)"
    by (simp add: run_defs fixture_defs)
  then obtain r w' where run:
    "plot_anim exact two_frames (0, 1) (-10, 10) 5 20 1000 (Some ''T'') (Some []) None True fresh_world = Inr (r, w')"
    by (auto simp: returned_def split: sum.splits)
  have none: "r = None" using gif_result_none[OF run] .
  note t = falsy_decorations_left_unset[where frame_gen = two_frames and xlim = "(0, 1)"
      and ar = exact
      and ylim = "(-10, 10)" and n = 5 and delay = 20 and max_frames = 1000 and title = "Some ''T''"
      and xlabel = "Some []" and ylabel = None and gif = True and w = fresh_world and r = r and w' = w']
  from t run none show ?thesis by (auto simp: new_num_def fresh_world_def)
qed

end
